theory Spec2Isabelle
  imports Complex_Main "HOL-Library.AList"
begin

section \<open>Monster AI and combat system (monster\_ai\_system.py)\<close>

text \<open>
  A shallow embedding of \<^verbatim>\<open>MonsterAI\<close> and \<^verbatim>\<open>MonsterSpawner\<close>.

  Conventions of the embedding:
  \<^item> Python floats are read as real numbers and Python ints as integers; \<^verbatim>\<open>int(x)\<close>
    on a float is truncation toward zero (\<open>py_int\<close>) and \<^verbatim>\<open>math.sqrt\<close> is the real square
    root. In \<^verbatim>\<open>take_damage\<close>, where the caller's integer amount is scaled by a float and
    truncated, the float arithmetic is binary64: a float literal is the double nearest to
    its decimal, an int is converted to the nearest double, and a product is rounded to
    the nearest double (\<open>to_double\<close>, ties to even), with OverflowError where Python raises
    it.
  \<^item> Every \<^verbatim>\<open>time.time()\<close> reading and every draw from \<^verbatim>\<open>random\<close> is an explicit
    argument (the \<open>..._env\<close> records); all clock readings inside one call are the
    same instant.
  \<^item> A method that mutates \<^verbatim>\<open>self\<close> takes the object and returns the new one. The
    \<^verbatim>\<open>MonsterStats\<close> object an agent holds in \<^verbatim>\<open>self.stats\<close> is shared with the
    spawner's template table, so the agent keeps an address (\<open>stats\<close>) into a store of
    stats objects and the methods take and return the stats object itself.
  \<^item> An exception is a value \<open>Inl e\<close>; the state mutated before the raise is returned
    with it.
  \<^item> A leading underscore of a Python name is dropped. The logger and the three random
    traits drawn in \<^verbatim>\<open>__init__\<close> (aggression, intelligence, patience) are never read
    and are left out.
\<close>

subsection \<open>Data\<close>

datatype MonsterType =
  GREAT_JAGGI | QURUPECO | BARROTH | RATHIAN | RATHALOS | DIABLOS | TIGREX | NARGACUGA | BARIOTH

datatype StatusEffect = POISON | PARALYSIS | SLEEP | STUN | MOUNT | TRAP

datatype AttackType = PHYSICAL | FIRE | ICE | THUNDER | WATER | DRAGON | POISON_ATTACK

datatype py_error = IndexError | KeyError | ZeroDivisionError | OverflowError

record MonsterStats =
  name :: string
  monster_type :: MonsterType
  health :: int
  max_health :: int
  attack :: int
  defense :: int
  speed :: real
  size_class :: string
  elemental_weakness :: "AttackType list"
  elemental_resistance :: "AttackType list"
  status_weakness :: "StatusEffect list"
  status_resistance :: "StatusEffect list"
  rage_threshold :: real
  enrage_multiplier :: real

record Position =
  px :: real
  py :: real
  pz :: real

record StatusEffectInstance =
  effect :: StatusEffect
  duration :: real
  intensity :: real
  start_time :: real

text \<open>An attack pattern dictionary; the keys \<^verbatim>\<open>type\<close> and \<^verbatim>\<open>status\<close> are optional.\<close>

record AttackPattern =
  a_name :: string
  a_damage :: int
  a_range :: real
  a_cooldown :: real
  a_type :: "AttackType option"
  a_status :: "StatusEffect option"

text \<open>
  A player dictionary. \<^verbatim>\<open>id\<close> and \<^verbatim>\<open>position\<close> are read with \<^verbatim>\<open>player[...]\<close> on every
  path and are taken as present; \<^verbatim>\<open>name\<close> is read only by the log line of a hit and
  \<^verbatim>\<open>defense\<close> with \<^verbatim>\<open>.get('defense', 0)\<close>, so both are optional.
\<close>

record Player =
  p_id :: string
  p_name :: "string option"
  p_position :: Position
  p_defense :: "int option"

record MonsterAI =
  stats :: nat
  position :: Position
  target_position :: Position
  current_health :: real
  is_enraged :: bool
  is_stunned :: bool
  is_sleeping :: bool
  is_trapped :: bool
  is_mounted :: bool
  status_effects :: "StatusEffectInstance list"
  last_attack_time :: real
  attack_cooldown :: real
  state :: string
  target_player :: "Player option"
  rage_timer :: real
  last_movement :: real
  attack_patterns :: "AttackPattern list"
  current_pattern_index :: nat

text \<open>
  The dictionaries returned by \<^verbatim>\<open>update\<close> and \<^verbatim>\<open>take_damage\<close>, one constructor per value
  of \<^verbatim>\<open>"action"\<close>, with the other entries as arguments in the order the source writes them. The
  entries that are constant for an action (\<^verbatim>\<open>"status"\<close>, and \<^verbatim>\<open>"health": 0\<close> of a defeat) are left
  out.
\<close>

datatype Action =
  Cooldown Position
| Attack string int Position string AttackType "StatusEffect option"
| Miss Position
| Stunned Position
| Chase Position string real
| Sleep Position
| Patrol Position
| Idle Position
| Defeated int
| Flee int real
| Damaged int real

text \<open>The value under the key \<^verbatim>\<open>"action"\<close>.\<close>

fun action_name :: "Action \<Rightarrow> string" where
  "action_name (Cooldown _) = ''cooldown''"
| "action_name (Attack _ _ _ _ _ _) = ''attack''"
| "action_name (Miss _) = ''miss''"
| "action_name (Stunned _) = ''stunned''"
| "action_name (Chase _ _ _) = ''chase''"
| "action_name (Sleep _) = ''sleep''"
| "action_name (Patrol _) = ''patrol''"
| "action_name (Idle _) = ''idle''"
| "action_name (Defeated _) = ''defeated''"
| "action_name (Flee _ _) = ''flee''"
| "action_name (Damaged _ _) = ''damaged''"

text \<open>The value under the key \<^verbatim>\<open>"damage"\<close>, where the dictionary has one.\<close>

fun action_damage :: "Action \<Rightarrow> int option" where
  "action_damage (Attack _ d _ _ _ _) = Some d"
| "action_damage (Defeated d) = Some d"
| "action_damage (Flee d _) = Some d"
| "action_damage (Damaged d _) = Some d"
| "action_damage _ = None"

text \<open>Clock readings and random draws of one \<^verbatim>\<open>update\<close> call.\<close>

record tick_env =
  now :: real
  move_wait :: real
  off_x :: real
  off_z :: real

text \<open>Of one \<^verbatim>\<open>take_damage\<close> call: the clock and \<^verbatim>\<open>random.random()\<close>.\<close>

record damage_env =
  d_now :: real
  flee_draw :: real

subsection \<open>Numbers\<close>

definition py_int :: "real \<Rightarrow> int" where
  "py_int x = (if 0 \<le> x then \<lfloor>x\<rfloor> else \<lceil>x\<rceil>)"

text \<open>Python's \<^verbatim>\<open>round\<close> (nearest integer, ties to even): the rounding the specification names.\<close>

definition py_round :: "real \<Rightarrow> int" where
  "py_round x =
     (let f = \<lfloor>x\<rfloor>; r = x - of_int f
      in if r < 1 / 2 then f else if 1 / 2 < r then f + 1 else if even f then f else f + 1)"

subsection \<open>Binary64 rounding\<close>

text \<open>\<^verbatim>\<open>int.bit_length\<close> of a natural number.\<close>

fun bit_length :: "nat \<Rightarrow> nat" where
  "bit_length n = (if n = 0 then 0 else Suc (bit_length (n div 2)))"

definition pow2 :: "int \<Rightarrow> real" where
  "pow2 k = (if 0 \<le> k then 2 ^ nat k else 1 / 2 ^ nat (- k))"

text \<open>The exponent \<open>e\<close> of a non-zero real \<open>x\<close>: \<open>2 ^ e \<le> \<bar>x\<bar> < 2 ^ (e + 1)\<close>.\<close>

definition float_exponent :: "real \<Rightarrow> int" where
  "float_exponent x =
     (if 1 \<le> \<bar>x\<bar> then int (bit_length (nat \<lfloor>\<bar>x\<bar>\<rfloor>)) - 1
      else let k = int (bit_length (nat \<lfloor>1 / \<bar>x\<bar>\<rfloor>))
           in if \<bar>x\<bar> * pow2 (k - 1) = 1 then 1 - k else - k)"

text \<open>
  The real \<open>x\<close> rounded to binary64, ties to even: 53 significant bits, and the fixed
  spacing \<open>2 ^ - 1074\<close> below the normal range. A result of magnitude \<open>2 ^ 1024\<close> or more
  (\<open>double_limit\<close>) stands for an infinity.
\<close>

definition to_double :: "real \<Rightarrow> real" where
  "to_double x =
     (if x = 0 then 0
      else let q = max (float_exponent x - 52) (- 1074)
           in sgn x * of_int (py_round (\<bar>x\<bar> / pow2 q)) * pow2 q)"

text \<open>The least magnitude that is no finite double.\<close>

definition double_limit :: real where
  "double_limit = 2 ^ 1024"

text \<open>An int converted to a float, as \<^verbatim>\<open>int * float\<close> does first; too large an int raises.\<close>

definition float_of_int :: "int \<Rightarrow> py_error + real" where
  "float_of_int n =
     (let d = to_double (of_int n)
      in if double_limit \<le> \<bar>d\<bar> then Inl OverflowError else Inr d)"

subsection \<open>Position\<close>

definition distance_to :: "Position \<Rightarrow> Position \<Rightarrow> real" where
  "distance_to self other =
     sqrt ((px self - px other)\<^sup>2 + (py self - py other)\<^sup>2 + (pz self - pz other)\<^sup>2)"

definition move_towards :: "Position \<Rightarrow> Position \<Rightarrow> real \<Rightarrow> Position" where
  "move_towards self target spd =
     (let distance = distance_to self target
      in if distance = 0 then self
         else let ratio = min (spd / distance) 1
              in \<lparr>px = px self + (px target - px self) * ratio,
                  py = py self + (py target - py self) * ratio,
                  pz = pz self + (pz target - pz self) * ratio\<rparr>)"

subsection \<open>MonsterAI\<close>

definition generate_attack_patterns :: "MonsterStats \<Rightarrow> AttackPattern list" where
  "generate_attack_patterns st =
     (case monster_type st of
        GREAT_JAGGI \<Rightarrow>
          [\<lparr>a_name = ''Tail Swipe'', a_damage = 15, a_range = 3, a_cooldown = 3 / 2,
            a_type = None, a_status = None\<rparr>,
           \<lparr>a_name = ''Charge'', a_damage = 25, a_range = 5, a_cooldown = 2,
            a_type = None, a_status = None\<rparr>,
           \<lparr>a_name = ''Bite'', a_damage = 20, a_range = 2, a_cooldown = 1,
            a_type = None, a_status = None\<rparr>]
      | RATHIAN \<Rightarrow>
          [\<lparr>a_name = ''Fire Breath'', a_damage = 30, a_range = 4, a_cooldown = 3,
            a_type = Some FIRE, a_status = None\<rparr>,
           \<lparr>a_name = ''Tail Flip'', a_damage = 35, a_range = 7 / 2, a_cooldown = 5 / 2,
            a_type = None, a_status = Some POISON\<rparr>,
           \<lparr>a_name = ''Charge'', a_damage = 25, a_range = 6, a_cooldown = 2,
            a_type = None, a_status = None\<rparr>]
      | TIGREX \<Rightarrow>
          [\<lparr>a_name = ''Roar'', a_damage = 10, a_range = 8, a_cooldown = 4,
            a_type = None, a_status = Some STUN\<rparr>,
           \<lparr>a_name = ''Claw Swipe'', a_damage = 40, a_range = 3, a_cooldown = 3 / 2,
            a_type = None, a_status = None\<rparr>,
           \<lparr>a_name = ''Rush Attack'', a_damage = 50, a_range = 7, a_cooldown = 3,
            a_type = None, a_status = None\<rparr>]
      | _ \<Rightarrow>
          [\<lparr>a_name = ''Basic Attack'', a_damage = 20, a_range = 2, a_cooldown = 3 / 2,
            a_type = None, a_status = None\<rparr>])"

text \<open>
  \<^verbatim>\<open>MonsterAI.__init__\<close>; \<open>ref\<close> is the address of \<^verbatim>\<open>monster_stats\<close>, \<open>st\<close> the object
  there, \<open>t\<close> the clock.
\<close>

definition MonsterAI_init :: "nat \<Rightarrow> MonsterStats \<Rightarrow> Position \<Rightarrow> real \<Rightarrow> MonsterAI" where
  "MonsterAI_init ref st initial_position t =
     \<lparr>stats = ref,
      position = initial_position,
      target_position = initial_position,
      current_health = of_int (health st),
      is_enraged = False,
      is_stunned = False,
      is_sleeping = False,
      is_trapped = False,
      is_mounted = False,
      status_effects = [],
      last_attack_time = 0,
      attack_cooldown = 2,
      state = ''idle'',
      target_player = None,
      rage_timer = 0,
      last_movement = t,
      attack_patterns = generate_attack_patterns st,
      current_pattern_index = 0\<rparr>"

text \<open>What one still active effect does to the agent (the first \<^verbatim>\<open>if/elif\<close> chain).\<close>

definition apply_active :: "real \<Rightarrow> StatusEffectInstance \<Rightarrow> MonsterAI \<Rightarrow> MonsterAI" where
  "apply_active delta_time e m =
     (case effect e of
        POISON \<Rightarrow> m\<lparr>current_health := current_health m - intensity e * delta_time\<rparr>
      | PARALYSIS \<Rightarrow> m\<lparr>is_stunned := True\<rparr>
      | SLEEP \<Rightarrow> m\<lparr>is_sleeping := True\<rparr>
      | TRAP \<Rightarrow> m\<lparr>is_trapped := True\<rparr>
      | MOUNT \<Rightarrow> m\<lparr>is_mounted := True\<rparr>
      | STUN \<Rightarrow> m)"

text \<open>What one expired effect does (the second chain).\<close>

definition apply_expired :: "StatusEffectInstance \<Rightarrow> MonsterAI \<Rightarrow> MonsterAI" where
  "apply_expired e m =
     (case effect e of
        PARALYSIS \<Rightarrow> m\<lparr>is_stunned := False\<rparr>
      | SLEEP \<Rightarrow> m\<lparr>is_sleeping := False\<rparr>
      | TRAP \<Rightarrow> m\<lparr>is_trapped := False\<rparr>
      | MOUNT \<Rightarrow> m\<lparr>is_mounted := False\<rparr>
      | _ \<Rightarrow> m)"

text \<open>The \<^verbatim>\<open>for effect in self.status_effects\<close> loop, with \<^verbatim>\<open>active_effects\<close> as accumulator.\<close>

fun status_loop ::
  "real \<Rightarrow> real \<Rightarrow> StatusEffectInstance list \<Rightarrow> MonsterAI \<Rightarrow> StatusEffectInstance list
   \<Rightarrow> MonsterAI \<times> StatusEffectInstance list" where
  "status_loop t delta_time [] m active_effects = (m, active_effects)"
| "status_loop t delta_time (e # es) m active_effects =
     (if t - start_time e < duration e
      then status_loop t delta_time es (apply_active delta_time e m) (active_effects @ [e])
      else status_loop t delta_time es (apply_expired e m) active_effects)"

definition update_status_effects :: "real \<Rightarrow> MonsterAI \<Rightarrow> real \<Rightarrow> MonsterAI" where
  "update_status_effects t m delta_time =
     (case status_loop t delta_time (status_effects m) m [] of
        (m', active_effects) \<Rightarrow> m'\<lparr>status_effects := active_effects\<rparr>)"

text \<open>The search loop of \<^verbatim>\<open>_find_nearest_player\<close>; \<open>None\<close> as \<open>min_distance\<close> is \<^verbatim>\<open>float('inf')\<close>.\<close>

fun nearest_loop ::
  "Position \<Rightarrow> Player list \<Rightarrow> Player option \<Rightarrow> real option \<Rightarrow> Player option" where
  "nearest_loop pos [] nearest min_distance = nearest"
| "nearest_loop pos (p # ps) nearest min_distance =
     (let distance = distance_to pos (p_position p)
      in if (case min_distance of None \<Rightarrow> True | Some d \<Rightarrow> distance < d)
         then nearest_loop pos ps (Some p) (Some distance)
         else nearest_loop pos ps nearest min_distance)"

definition find_nearest_player :: "MonsterAI \<Rightarrow> Player list \<Rightarrow> Player option" where
  "find_nearest_player m players =
     (if players = [] then None else nearest_loop (position m) players None None)"

text \<open>\<^verbatim>\<open>_become_enraged\<close> writes the agent and the stats object \<^verbatim>\<open>self.stats\<close>.\<close>

definition become_enraged :: "real \<Rightarrow> MonsterStats \<Rightarrow> MonsterAI \<Rightarrow> MonsterStats \<times> MonsterAI" where
  "become_enraged t st m =
     (st\<lparr>attack := py_int (of_int (attack st) * enrage_multiplier st)\<rparr>,
      m\<lparr>is_enraged := True, rage_timer := t, attack_cooldown := attack_cooldown m * (7 / 10)\<rparr>)"

text \<open>
  \<^verbatim>\<open>_perform_attack\<close>. The subscript \<^verbatim>\<open>attack_patterns[current_pattern_index]\<close> raises
  IndexError out of range; the modulus by the length (ZeroDivisionError on 0) comes after
  it. On a hit the log line reads \<^verbatim>\<open>player['name']\<close> after \<^verbatim>\<open>last_attack_time\<close> has been
  written.
\<close>

definition perform_attack ::
  "MonsterStats \<Rightarrow> MonsterAI \<Rightarrow> Player \<Rightarrow> real \<Rightarrow> MonsterAI \<times> (py_error + Action)" where
  "perform_attack st m player current_time =
     (if current_time - last_attack_time m < attack_cooldown m
      then (m, Inr (Cooldown (position m)))
      else if length (attack_patterns m) \<le> current_pattern_index m
      then (m, Inl IndexError)
      else if length (attack_patterns m) = 0
      then (m, Inl ZeroDivisionError)
      else
        let attack_pattern = attack_patterns m ! current_pattern_index m;
            m1 = m\<lparr>current_pattern_index :=
                      (current_pattern_index m + 1) mod length (attack_patterns m)\<rparr>;
            base_damage = (if is_enraged m1
                           then py_int (of_int (a_damage attack_pattern) * enrage_multiplier st)
                           else a_damage attack_pattern);
            player_distance = distance_to (position m1) (p_position player)
        in if player_distance \<le> a_range attack_pattern
           then
             let m2 = m1\<lparr>last_attack_time := current_time\<rparr>;
                 final_damage =
                   max 1 (base_damage - (case p_defense player of None \<Rightarrow> 0 | Some d \<Rightarrow> d))
             in (case p_name player of
                   None \<Rightarrow> (m2, Inl KeyError)
                 | Some _ \<Rightarrow>
                     (m2, Inr (Attack (a_name attack_pattern) final_damage (position m2)
                                 (p_id player)
                                 (case a_type attack_pattern of None \<Rightarrow> PHYSICAL | Some t \<Rightarrow> t)
                                 (a_status attack_pattern))))
           else (m1, Inr (Miss (position m1))))"

definition chase_player :: "MonsterStats \<Rightarrow> MonsterAI \<Rightarrow> Player \<Rightarrow> real \<Rightarrow> MonsterAI \<times> Action" where
  "chase_player st m player delta_time =
     (if is_trapped m \<or> is_stunned m \<or> is_sleeping m
      then (m, Stunned (position m))
      else
        let movement_speed = speed st * delta_time;
            movement_speed = (if is_enraged m then movement_speed * (13 / 10) else movement_speed);
            m1 = m\<lparr>position := move_towards (position m) (p_position player) movement_speed\<rparr>
        in (m1, Chase (position m1) (p_id player) movement_speed))"

definition idle_behavior :: "tick_env \<Rightarrow> MonsterStats \<Rightarrow> MonsterAI \<Rightarrow> real \<Rightarrow> MonsterAI \<times> Action" where
  "idle_behavior env st m delta_time =
     (if is_sleeping m then (m, Sleep (position m))
      else
        let m1 = (if move_wait env < now env - last_movement m
                  then m\<lparr>target_position :=
                            \<lparr>px = px (position m) + off_x env,
                             py = py (position m),
                             pz = pz (position m) + off_z env\<rparr>,
                          last_movement := now env\<rparr>
                  else m)
        in if 1 / 2 < distance_to (position m1) (target_position m1)
           then
             let movement_speed = speed st * (3 / 10) * delta_time;
                 m2 = m1\<lparr>position :=
                            move_towards (position m1) (target_position m1) movement_speed\<rparr>
             in (m2, Patrol (position m2))
           else (m1, Idle (position m1)))"

text \<open>
  \<^verbatim>\<open>MonsterAI.update\<close>. The division \<^verbatim>\<open>current_health / max_health\<close> raises
  ZeroDivisionError when \<^verbatim>\<open>max_health\<close> is 0.
\<close>

definition update ::
  "tick_env \<Rightarrow> MonsterStats \<Rightarrow> MonsterAI \<Rightarrow> real \<Rightarrow> Player list
   \<Rightarrow> MonsterStats \<times> MonsterAI \<times> (py_error + Action)" where
  "update env st m delta_time nearby_players =
     (let current_time = now env;
          m1 = update_status_effects (now env) m delta_time
      in if max_health st = 0 then (st, m1, Inl ZeroDivisionError)
         else
           let health_percentage = current_health m1 / of_int (max_health st);
               (st2, m2) = (if health_percentage \<le> rage_threshold st \<and> \<not> is_enraged m1
                            then become_enraged (now env) st m1 else (st, m1))
           in (case find_nearest_player m2 nearby_players of
                 Some nearest_player \<Rightarrow>
                   let m3 = m2\<lparr>target_player := Some nearest_player\<rparr>;
                       player_distance = distance_to (position m3) (p_position nearest_player)
                   in if player_distance \<le> 2 \<and> \<not> is_stunned m3 \<and> \<not> is_sleeping m3
                      then (case perform_attack st2 m3 nearest_player current_time of
                              (m4, r) \<Rightarrow> (st2, m4, r))
                      else if player_distance \<le> 15 \<and> \<not> is_stunned m3 \<and> \<not> is_sleeping m3
                      then (case chase_player st2 m3 nearest_player delta_time of
                              (m4, a) \<Rightarrow> (st2, m4, Inr a))
                      else (case idle_behavior env st2 m3 delta_time of
                              (m4, a) \<Rightarrow> (st2, m4, Inr a))
               | None \<Rightarrow>
                   (case idle_behavior env st2 m2 delta_time of
                      (m4, a) \<Rightarrow> (st2, m4, Inr a))))"

text \<open>
  The multiplier chosen at the head of \<^verbatim>\<open>take_damage\<close>: the floats \<^verbatim>\<open>1.5\<close>, \<^verbatim>\<open>0.7\<close> and \<^verbatim>\<open>1.0\<close>.
  The first and the last are exact; \<^verbatim>\<open>0.7\<close> is the double nearest to 7/10, which lies
  below it.
\<close>

definition damage_multiplier :: "MonsterStats \<Rightarrow> AttackType \<Rightarrow> real" where
  "damage_multiplier st attack_type =
     (if attack_type \<in> set (elemental_weakness st) then 3 / 2
      else if attack_type \<in> set (elemental_resistance st) then to_double (7 / 10)
      else 1)"

text \<open>
  \<^verbatim>\<open>MonsterAI.take_damage\<close>; it reads the stats object and writes only the agent.
  \<^verbatim>\<open>int(damage * damage_multiplier)\<close> converts \<^verbatim>\<open>damage\<close> to a float (OverflowError when it
  is too large), rounds the product to a double and truncates it; \<^verbatim>\<open>int\<close> of an infinite
  product raises OverflowError too. Both come before the first write to the agent. The
  flee threshold \<^verbatim>\<open>max_health * 0.2\<close> is a float product as well.
\<close>

definition take_damage ::
  "damage_env \<Rightarrow> MonsterStats \<Rightarrow> MonsterAI \<Rightarrow> int \<Rightarrow> AttackType \<Rightarrow> StatusEffect option \<Rightarrow> real
   \<Rightarrow> MonsterAI \<times> (py_error + Action)" where
  "take_damage env st m damage attack_type status_effect status_duration =
     (let status_duration =
            (case status_effect of
               None \<Rightarrow> status_duration
             | Some s \<Rightarrow> if s \<in> set (status_resistance st)
                         then status_duration * (1 / 2) else status_duration)
      in case float_of_int damage of
           Inl e \<Rightarrow> (m, Inl e)
         | Inr d \<Rightarrow>
             let product = to_double (d * damage_multiplier st attack_type)
             in if double_limit \<le> \<bar>product\<bar> then (m, Inl OverflowError)
                else
                  let final_damage = py_int product;
                      m1 = m\<lparr>current_health :=
                                max 0 (current_health m - of_int final_damage)\<rparr>;
                      m2 = (case status_effect of
                              None \<Rightarrow> m1
                            | Some s \<Rightarrow>
                                if 0 < status_duration
                                then m1\<lparr>status_effects := status_effects m1 @
                                          [\<lparr>effect = s, duration = status_duration,
                                            intensity = 1, start_time = d_now env\<rparr>]\<rparr>
                                else m1)
                  in if current_health m2 \<le> 0 then (m2, Inr (Defeated final_damage))
                     else
                       (case float_of_int (max_health st) of
                          Inl e \<Rightarrow> (m2, Inl e)
                        | Inr max_health_float \<Rightarrow>
                            if current_health m2
                                 < to_double (max_health_float * to_double (2 / 10))
                               \<and> flee_draw env < to_double (3 / 10)
                            then (m2\<lparr>state := ''fleeing''\<rparr>,
                                  Inr (Flee final_damage (current_health m2)))
                            else (m2, Inr (Damaged final_damage (current_health m2)))))"

subsection \<open>MonsterSpawner\<close>

text \<open>Decimal rendering of an integer, as an f-string does it.\<close>

fun str_nat :: "nat \<Rightarrow> string" where
  "str_nat n =
     (if n < 10 then [''0123456789'' ! n]
      else str_nat (n div 10) @ [''0123456789'' ! (n mod 10)])"

definition str_int :: "int \<Rightarrow> string" where
  "str_int i = (if i < 0 then CHR ''-'' # str_nat (nat (- i)) else str_nat (nat i))"

text \<open>\<^verbatim>\<open>random.choice\<close> on a non-empty list; \<open>i\<close> is the draw.\<close>

definition choice :: "'a list \<Rightarrow> nat \<Rightarrow> 'a" where
  "choice xs i = xs ! (i mod length xs)"

definition great_jaggi_stats :: MonsterStats where
  "great_jaggi_stats =
     \<lparr>name = ''Great Jaggi'', monster_type = GREAT_JAGGI, health = 800, max_health = 800,
      attack = 45, defense = 20, speed = 3, size_class = ''medium'',
      elemental_weakness = [FIRE], elemental_resistance = [WATER],
      status_weakness = [PARALYSIS], status_resistance = [POISON],
      rage_threshold = 3 / 10, enrage_multiplier = 3 / 2\<rparr>"

definition rathian_stats :: MonsterStats where
  "rathian_stats =
     \<lparr>name = ''Rathian'', monster_type = RATHIAN, health = 2000, max_health = 2000,
      attack = 80, defense = 35, speed = 4, size_class = ''large'',
      elemental_weakness = [THUNDER], elemental_resistance = [FIRE],
      status_weakness = [STUN], status_resistance = [POISON],
      rage_threshold = 4 / 10, enrage_multiplier = 18 / 10\<rparr>"

definition tigrex_stats :: MonsterStats where
  "tigrex_stats =
     \<lparr>name = ''Tigrex'', monster_type = TIGREX, health = 3000, max_health = 3000,
      attack = 120, defense = 50, speed = 5, size_class = ''large'',
      elemental_weakness = [THUNDER], elemental_resistance = [FIRE, ICE],
      status_weakness = [STUN], status_resistance = [PARALYSIS],
      rage_threshold = 5 / 10, enrage_multiplier = 2\<rparr>"

text \<open>
  The spawner. \<open>stats_store\<close> holds the \<^verbatim>\<open>MonsterStats\<close> objects by address; the
  dictionary \<^verbatim>\<open>monster_templates\<close> maps a species key to the address of its object, and
  \<^verbatim>\<open>active_monsters\<close> is a dictionary in insertion order.
\<close>

record MonsterSpawner =
  stats_store :: "nat \<Rightarrow> MonsterStats"
  monster_templates :: "(string \<times> nat) list"
  active_monsters :: "(string \<times> MonsterAI) list"
  spawn_points :: "Position list"
  max_monsters :: int
  spawn_timer :: real
  spawn_interval :: real

text \<open>
  \<^verbatim>\<open>MonsterSpawner.__init__\<close> with \<^verbatim>\<open>_create_monster_templates\<close>: the three objects are
  allocated at the addresses 0, 1 and 2; no other address is ever read.
\<close>

definition MonsterSpawner_init :: MonsterSpawner where
  "MonsterSpawner_init =
     \<lparr>stats_store = (\<lambda>_. undefined)(0 := great_jaggi_stats, 1 := rathian_stats,
                                      2 := tigrex_stats),
      monster_templates = [(''great_jaggi'', 0), (''rathian'', 1), (''tigrex'', 2)],
      active_monsters = [],
      spawn_points = [],
      max_monsters = 10,
      spawn_timer = 0,
      spawn_interval = 30\<rparr>"

definition add_spawn_point :: "MonsterSpawner \<Rightarrow> Position \<Rightarrow> MonsterSpawner" where
  "add_spawn_point s p = s\<lparr>spawn_points := spawn_points s @ [p]\<rparr>"

text \<open>The clock and the \<^verbatim>\<open>random.randint(1000, 9999)\<close> draw of one \<^verbatim>\<open>spawn_monster\<close> call.\<close>

record spawn_env =
  s_now :: real
  rand_id :: int

definition spawn_monster ::
  "spawn_env \<Rightarrow> MonsterSpawner \<Rightarrow> string \<Rightarrow> Position \<Rightarrow> MonsterSpawner \<times> string option" where
  "spawn_monster env s mtype pos =
     (if max_monsters s \<le> int (length (active_monsters s)) then (s, None)
      else
        (case map_of (monster_templates s) mtype of
           None \<Rightarrow> (s, None)
         | Some ref \<Rightarrow>
             let monster_id =
                   mtype @ ''_'' @ str_int (py_int (s_now env)) @ ''_'' @ str_int (rand_id env);
                 monster_ai = MonsterAI_init ref (stats_store s ref) pos (s_now env)
             in (s\<lparr>active_monsters := AList.update monster_id monster_ai (active_monsters s)\<rparr>,
                 Some monster_id)))"

text \<open>The draws of one \<^verbatim>\<open>update_monsters\<close> call: one \<open>tick_env\<close> per monster id, and those
  of \<^verbatim>\<open>_spawn_random_monster\<close>.\<close>

record sweep_env =
  tick_envs :: "string \<Rightarrow> tick_env"
  spawn_draw :: spawn_env
  point_choice :: nat
  type_choice :: nat

text \<open>
  The \<^verbatim>\<open>for monster_id, monster in self.active_monsters.items()\<close> loop over the items
  still to visit. It returns the store, the items with each agent as its update left
  it, the list \<^verbatim>\<open>updates\<close> (each with its \<^verbatim>\<open>monster_id\<close>) and \<^verbatim>\<open>monsters_to_remove\<close>.
\<close>

fun sweep ::
  "(string \<Rightarrow> tick_env) \<Rightarrow> real \<Rightarrow> Player list \<Rightarrow> (string \<times> MonsterAI) list
   \<Rightarrow> (nat \<Rightarrow> MonsterStats)
   \<Rightarrow> (nat \<Rightarrow> MonsterStats) \<times> (string \<times> MonsterAI) list \<times> (string \<times> Action) list \<times> string list"
  where
  "sweep envs delta_time players [] store = (store, [], [], [])"
| "sweep envs delta_time players ((monster_id, monster) # rest) store =
     (case update (envs monster_id) (store (stats monster)) monster delta_time players of
        (st', monster', r) \<Rightarrow>
          (case sweep envs delta_time players rest (store(stats monster := st')) of
             (store', items, updates, monsters_to_remove) \<Rightarrow>
               (case r of
                  Inr upd \<Rightarrow>
                    (store', (monster_id, monster') # items, (monster_id, upd) # updates,
                     if action_name upd = ''defeated''
                     then monster_id # monsters_to_remove else monsters_to_remove)
                | Inl e \<Rightarrow>
                    (store', (monster_id, monster') # items, updates,
                     monster_id # monsters_to_remove))))"

definition spawn_random_monster :: "sweep_env \<Rightarrow> MonsterSpawner \<Rightarrow> MonsterSpawner \<times> (py_error + unit)" where
  "spawn_random_monster env s =
     (if spawn_points s = [] then (s, Inr ())
      else
        let spawn_point = choice (spawn_points s) (point_choice env);
            monster_types = map fst (monster_templates s)
        in if monster_types = [] then (s, Inl IndexError)
           else (fst (spawn_monster (spawn_draw env) s
                        (choice monster_types (type_choice env)) spawn_point),
                 Inr ()))"

definition update_monsters ::
  "sweep_env \<Rightarrow> MonsterSpawner \<Rightarrow> real \<Rightarrow> Player list
   \<Rightarrow> MonsterSpawner \<times> (py_error + (string \<times> Action) list)" where
  "update_monsters env s delta_time nearby_players =
     (case sweep (tick_envs env) delta_time nearby_players (active_monsters s) (stats_store s) of
        (store', items, updates, monsters_to_remove) \<Rightarrow>
          let s1 = s\<lparr>stats_store := store',
                     active_monsters := fold AList.delete monsters_to_remove items\<rparr>;
              s2 = s1\<lparr>spawn_timer := spawn_timer s1 + delta_time\<rparr>
          in if spawn_interval s2 \<le> spawn_timer s2
                \<and> int (length (active_monsters s2)) < max_monsters s2
             then (case spawn_random_monster env s2 of
                     (s3, Inl e) \<Rightarrow> (s3, Inl e)
                   | (s3, Inr _) \<Rightarrow> (s3\<lparr>spawn_timer := 0\<rparr>, Inr updates))
             else (s2, Inr updates))"

definition damage_monster ::
  "damage_env \<Rightarrow> MonsterSpawner \<Rightarrow> string \<Rightarrow> int \<Rightarrow> AttackType \<Rightarrow> StatusEffect option \<Rightarrow> real
   \<Rightarrow> MonsterSpawner \<times> (py_error + Action option)" where
  "damage_monster env s monster_id damage attack_type status_effect status_duration =
     (case map_of (active_monsters s) monster_id of
        None \<Rightarrow> (s, Inr None)
      | Some m \<Rightarrow>
          (case take_damage env (stats_store s (stats m)) m damage attack_type status_effect
                  status_duration of
             (m', r) \<Rightarrow>
               (s\<lparr>active_monsters := AList.update monster_id m' (active_monsters s)\<rparr>,
                case r of Inl e \<Rightarrow> Inl e | Inr a \<Rightarrow> Inr (Some a))))"

text \<open>A caller's operations on a spawner, and a run of them from a given spawner.\<close>

datatype spawner_op =
  OpSpawn spawn_env string Position
| OpTick sweep_env real "Player list"
| OpDamage damage_env string int AttackType "StatusEffect option" real
| OpAddPoint Position

fun spawner_step :: "MonsterSpawner \<Rightarrow> spawner_op \<Rightarrow> MonsterSpawner" where
  "spawner_step s (OpSpawn env mtype pos) = fst (spawn_monster env s mtype pos)"
| "spawner_step s (OpTick env delta_time players) = fst (update_monsters env s delta_time players)"
| "spawner_step s (OpDamage env monster_id damage attack_type status_effect status_duration) =
     fst (damage_monster env s monster_id damage attack_type status_effect status_duration)"
| "spawner_step s (OpAddPoint p) = add_spawn_point s p"

definition run_spawner :: "MonsterSpawner \<Rightarrow> spawner_op list \<Rightarrow> MonsterSpawner" where
  "run_spawner s ops = foldl spawner_step s ops"

subsection \<open>Runs of one agent\<close>

text \<open>
  What a caller can do to one agent after constructing it, and a run of such calls. An
  exception of \<^verbatim>\<open>update\<close> or \<^verbatim>\<open>take_damage\<close> leaves the agent as it was when raised.
\<close>

datatype agent_op =
  AUpdate tick_env real "Player list"
| ADamage damage_env int AttackType "StatusEffect option" real

fun agent_step :: "MonsterStats \<times> MonsterAI \<Rightarrow> agent_op \<Rightarrow> MonsterStats \<times> MonsterAI" where
  "agent_step (st, m) (AUpdate env delta_time players) =
     (case update env st m delta_time players of (st', m', r) \<Rightarrow> (st', m'))"
| "agent_step (st, m) (ADamage env damage attack_type status_effect status_duration) =
     (st, fst (take_damage env st m damage attack_type status_effect status_duration))"

definition run_agent :: "MonsterStats \<Rightarrow> MonsterAI \<Rightarrow> agent_op list \<Rightarrow> MonsterStats \<times> MonsterAI" where
  "run_agent st m ops = foldl agent_step (st, m) ops"

subsection \<open>The specification's formulas\<close>

text \<open>
  The damage laws as the specification words them, with \<^verbatim>\<open>round\<close>; they are compared
  below with what \<open>take_damage\<close> and \<open>perform_attack\<close> compute.
\<close>

definition spec_take_damage_law ::
  "MonsterStats \<Rightarrow> MonsterAI \<Rightarrow> int \<Rightarrow> AttackType \<Rightarrow> MonsterAI \<times> (py_error + Action) \<Rightarrow> bool" where
  "spec_take_damage_law st m amount element r =
     (let final_damage =
            py_round (to_double (to_double (of_int amount) * damage_multiplier st element))
      in (case snd r of Inl e \<Rightarrow> False | Inr a \<Rightarrow> action_damage a = Some final_damage)
         \<and> current_health (fst r) = max 0 (current_health m - of_int final_damage))"

definition spec_attack_damage :: "AttackPattern \<Rightarrow> bool \<Rightarrow> real \<Rightarrow> int \<Rightarrow> int" where
  "spec_attack_damage pat enraged mult target_defense =
     max 1 (py_round (of_int (a_damage pat) * (if enraged then mult else 1)) - target_defense)"

subsection \<open>Concrete scenes\<close>

definition origin :: Position where
  "origin = \<lparr>px = 0, py = 0, pz = 0\<rparr>"

text \<open>A freshly constructed Great Jaggi at the origin, at clock 0.\<close>

definition fresh_jaggi :: MonsterAI where
  "fresh_jaggi = MonsterAI_init 0 great_jaggi_stats origin 0"

definition hunter :: Player where
  "hunter = \<lparr>p_id = ''player1'', p_name = Some ''Hunter1'', p_position = origin,
             p_defense = Some 0\<rparr>"

definition calm :: damage_env where
  "calm = \<lparr>d_now = 0, flee_draw = 1\<rparr>"

subsection \<open>The phases of \<open>update\<close>\<close>

text \<open>
  The body of \<open>update\<close> after the status effects, cut in two for the proofs: the rage
  check, and the choice of behaviour. \<open>update_phases\<close> below shows \<open>update\<close> is their
  composition.
\<close>

definition rage_check :: "real \<Rightarrow> MonsterStats \<Rightarrow> MonsterAI \<Rightarrow> MonsterStats \<times> MonsterAI" where
  "rage_check t st m =
     (if current_health m / of_int (max_health st) \<le> rage_threshold st \<and> \<not> is_enraged m
      then become_enraged t st m else (st, m))"

definition behave ::
  "tick_env \<Rightarrow> MonsterStats \<Rightarrow> MonsterAI \<Rightarrow> real \<Rightarrow> Player list \<Rightarrow> MonsterAI \<times> (py_error + Action)" where
  "behave env st m delta_time players =
     (case find_nearest_player m players of
        Some p \<Rightarrow>
          let m3 = m\<lparr>target_player := Some p\<rparr>;
              d = distance_to (position m3) (p_position p)
          in if d \<le> 2 \<and> \<not> is_stunned m3 \<and> \<not> is_sleeping m3
             then perform_attack st m3 p (now env)
             else if d \<le> 15 \<and> \<not> is_stunned m3 \<and> \<not> is_sleeping m3
             then (case chase_player st m3 p delta_time of (m4, a) \<Rightarrow> (m4, Inr a))
             else (case idle_behavior env st m3 delta_time of (m4, a) \<Rightarrow> (m4, Inr a))
      | None \<Rightarrow> (case idle_behavior env st m delta_time of (m4, a) \<Rightarrow> (m4, Inr a)))"

text \<open>The attack-pattern list is non-empty and the pattern index points into it.\<close>

definition pattern_ok :: "MonsterAI \<Rightarrow> bool" where
  "pattern_ok m = (attack_patterns m \<noteq> [] \<and> current_pattern_index m < length (attack_patterns m))"

text \<open>The agent \<open>m\<close> with the \<^verbatim>\<open>cooldown\<close> entry of every attack pattern rewritten by \<open>f\<close>.\<close>

definition retime :: "(real \<Rightarrow> real) \<Rightarrow> MonsterAI \<Rightarrow> MonsterAI" where
  "retime f m = m\<lparr>attack_patterns := map (a_cooldown_update f) (attack_patterns m)\<rparr>"

subsection \<open>The population during a tick\<close>

text \<open>
  \<^verbatim>\<open>active_monsters\<close> as \<open>update_monsters\<close> has it after the removal loop, before the
  cadence spawn.
\<close>

definition swept_population ::
  "sweep_env \<Rightarrow> MonsterSpawner \<Rightarrow> real \<Rightarrow> Player list \<Rightarrow> (string \<times> MonsterAI) list" where
  "swept_population env s delta_time players =
     (case sweep (tick_envs env) delta_time players (active_monsters s) (stats_store s) of
        (store', items, updates, monsters_to_remove) \<Rightarrow>
          fold AList.delete monsters_to_remove items)"

text \<open>The keys of \<^verbatim>\<open>active_monsters\<close> are distinct (it is a dictionary) and within the cap.\<close>

definition population_ok :: "MonsterSpawner \<Rightarrow> bool" where
  "population_ok s =
     (distinct (map fst (active_monsters s)) \<and> int (length (active_monsters s)) \<le> max_monsters s)"

text \<open>The stats object the agent \<open>monster_id\<close> reads through \<^verbatim>\<open>self.stats\<close>.\<close>

definition stats_seen :: "MonsterSpawner \<Rightarrow> string \<Rightarrow> MonsterStats option" where
  "stats_seen s monster_id =
     map_option (\<lambda>m. stats_store s (stats m)) (map_of (active_monsters s) monster_id)"

subsection \<open>More concrete scenes\<close>

definition tick1 :: tick_env where
  "tick1 = \<lparr>now = 10, move_wait = 3, off_x = 3, off_z = 4\<rparr>"

definition tick2 :: tick_env where
  "tick2 = \<lparr>now = 20, move_wait = 3, off_x = 3, off_z = 4\<rparr>"

text \<open>
  A Great Jaggi hit for 400 fire damage (600 after the weakness, health 200), then updated
  at clock 10 with the hunter on top of it: it enrages and attacks with its first pattern.
\<close>

definition enraged_scene :: "MonsterStats \<times> MonsterAI" where
  "enraged_scene =
     run_agent great_jaggi_stats fresh_jaggi
       [ADamage calm 400 FIRE None 0, AUpdate tick1 1 [hunter]]"

text \<open>A Great Jaggi hit for 799 with a 10 second poison (halved, as the species resists it).\<close>

definition poisoned_jaggi :: MonsterAI where
  "poisoned_jaggi =
     fst (take_damage calm great_jaggi_stats fresh_jaggi 799 PHYSICAL (Some POISON) 10)"

text \<open>A Great Jaggi paralysed for 10 seconds from clock 0.\<close>

definition paralysed_jaggi :: MonsterAI where
  "paralysed_jaggi =
     fst (take_damage calm great_jaggi_stats fresh_jaggi 0 PHYSICAL (Some PARALYSIS) 10)"

text \<open>The same agent paralysed a second time, for 2 seconds from clock 1.\<close>

definition stacked_jaggi :: MonsterAI where
  "stacked_jaggi =
     fst (take_damage \<lparr>d_now = 1, flee_draw = 1\<rparr> great_jaggi_stats paralysed_jaggi 0 PHYSICAL
            (Some PARALYSIS) 2)"

definition sweep1 :: sweep_env where
  "sweep1 = \<lparr>tick_envs = (\<lambda>_. tick1), spawn_draw = \<lparr>s_now = 10, rand_id = 2000\<rparr>,
             point_choice = 0, type_choice = 0\<rparr>"

text \<open>A new spawner with one Great Jaggi, and with two.\<close>

definition one_jaggi :: MonsterSpawner where
  "one_jaggi =
     fst (spawn_monster \<lparr>s_now = 0, rand_id = 1000\<rparr> MonsterSpawner_init ''great_jaggi'' origin)"

definition two_jaggis :: MonsterSpawner where
  "two_jaggis =
     fst (spawn_monster \<lparr>s_now = 0, rand_id = 1001\<rparr> one_jaggi ''great_jaggi'' origin)"

text \<open>The single Great Jaggi hit for its whole health.\<close>

definition dead_jaggi :: MonsterSpawner where
  "dead_jaggi = fst (damage_monster calm one_jaggi ''great_jaggi_0_1000'' 800 PHYSICAL None 0)"

text \<open>The first of two Great Jaggis brought to health 200, and the spawner one tick later.\<close>

definition wounded_pair :: MonsterSpawner where
  "wounded_pair = fst (damage_monster calm two_jaggis ''great_jaggi_0_1000'' 400 FIRE None 0)"

definition after_rage :: MonsterSpawner where
  "after_rage = fst (update_monsters sweep1 wounded_pair 1 [])"

text \<open>A spawner with cap 1, one agent and a spawn point.\<close>

definition crowded :: MonsterSpawner where
  "crowded = one_jaggi\<lparr>max_monsters := 1, spawn_points := [origin]\<rparr>"

section \<open>Properties\<close>

subsection \<open>The phases of \<open>update\<close>\<close>

lemma update_phases:
  "update env st m dt ps =
     (if max_health st = 0
      then (st, update_status_effects (now env) m dt, Inl ZeroDivisionError)
      else (fst (rage_check (now env) st (update_status_effects (now env) m dt)),
            behave env (fst (rage_check (now env) st (update_status_effects (now env) m dt)))
              (snd (rage_check (now env) st (update_status_effects (now env) m dt))) dt ps))"
  by (simp add: update_def rage_check_def behave_def Let_def case_prod_beta split: option.split)

subsection \<open>Binary64 values\<close>

declare bit_length.simps [simp del]

lemmas float_defs = to_double_def float_exponent_def pow2_def py_round_def float_of_int_def
  double_limit_def bit_length.simps

lemma double_0_7: "to_double (7 / 10) = 3152519739159347 / 4503599627370496"
  by (simp add: float_defs Let_def)

lemma double_0_2: "to_double (2 / 10) = 3602879701896397 / 18014398509481984"
  by (simp add: float_defs Let_def)

lemma double_0_3: "to_double (3 / 10) = 5404319552844595 / 18014398509481984"
  by (simp add: float_defs Let_def)

text \<open>Ties go to the even neighbour, and the spacing above \<open>2 ^ 53\<close> is 2.\<close>

lemma to_double_ties:
  "to_double (2 ^ 53 + 1) = 2 ^ 53 \<and> to_double (2 ^ 53 + 3) = 2 ^ 53 + 4"
  by (simp add: float_defs Let_def)

subsection \<open>Damage taken\<close>

text \<open>
  C4, as the specification states it, fails: \<open>take_damage\<close> converts the scaled amount
  with \<^verbatim>\<open>int(...)\<close>, which truncates, and does not round. A fresh Great Jaggi (resistant
  to water) hit for 4 water damage loses 2 health (\<open>4 * 0.7\<close> is just below 2.8), where
  rounding gives 3, on the float product as on the exact one.
\<close>

theorem take_damage_round_counterexample:
  "take_damage calm great_jaggi_stats fresh_jaggi 4 WATER None 0
     = (fresh_jaggi\<lparr>current_health := 798\<rparr>, Inr (Damaged 2 798))
   \<and> py_round (to_double (to_double (of_int 4) * damage_multiplier great_jaggi_stats WATER)) = 3
   \<and> py_round (of_int 4 * (7 / 10)) = 3
   \<and> \<not> spec_take_damage_law great_jaggi_stats fresh_jaggi 4 WATER
         (take_damage calm great_jaggi_stats fresh_jaggi 4 WATER None 0)"
  by (simp add: spec_take_damage_law_def take_damage_def damage_multiplier_def
      great_jaggi_stats_def fresh_jaggi_def MonsterAI_init_def py_int_def float_defs Let_def
      calm_def)

text \<open>
  C4 (amended): for every \<open>take_damage\<close> call the multiplier is 1.5 for an elemental
  weakness of the species, else 0.7 for an elemental resistance, else 1.0; the damage
  reported is the float product \<open>amount * multiplier\<close> truncated toward zero,
  \<open>final_damage = int(amount * multiplier)\<close>; and the new health is
  \<open>max(0, old health - final_damage)\<close>. The product is the binary64 one: the amount converted
  to a double, times the double multiplier, rounded to a double. When the amount is too
  large for a float or the product is infinite, the call raises OverflowError and leaves the
  agent as it was. (After the health is written, a call that does not answer \<open>Defeated\<close>
  raises OverflowError only if \<open>max_health\<close> is too large for a float.)
\<close>

theorem take_damage_law:
  "(let mult = (if element \<in> set (elemental_weakness st) then 3 / 2
                else if element \<in> set (elemental_resistance st) then to_double (7 / 10)
                else 1);
        d = to_double (of_int amount);
        product = to_double (d * mult);
        r = take_damage env st m amount element se sd
    in if double_limit \<le> \<bar>d\<bar> \<or> double_limit \<le> \<bar>product\<bar>
       then r = (m, Inl OverflowError)
       else current_health (fst r) = max 0 (current_health m - of_int (py_int product))
            \<and> (case snd r of
                  Inr a \<Rightarrow> action_damage a = Some (py_int product)
                | Inl e \<Rightarrow> e = OverflowError
                            \<and> double_limit \<le> \<bar>to_double (of_int (max_health st))\<bar>))"
  by (simp add: take_damage_def float_of_int_def damage_multiplier_def Let_def
      split: option.split)

text \<open>
  C4, at an amount where the double \<^verbatim>\<open>0.7\<close> matters: 90 water damage on a fresh Great Jaggi
  is \<open>int(62.99999999999999) = 62\<close>, health 738 (the exact product is 63).
\<close>

theorem take_damage_law_witness:
  "current_health (fst (take_damage calm great_jaggi_stats fresh_jaggi 90 WATER None 0)) = 738
   \<and> snd (take_damage calm great_jaggi_stats fresh_jaggi 90 WATER None 0) = Inr (Damaged 62 738)
   \<and> py_int (of_int 90 * (7 / 10)) = 63"
proof -
  have ev: "take_damage calm great_jaggi_stats fresh_jaggi 90 WATER None 0
     = (fresh_jaggi\<lparr>current_health := 738\<rparr>, Inr (Damaged 62 738))"
    by (simp add: take_damage_def damage_multiplier_def great_jaggi_stats_def fresh_jaggi_def
      MonsterAI_init_def py_int_def float_defs Let_def calm_def)
  have d: "to_double 90 = 90"
    by (simp add: float_defs Let_def)
  have t: "py_int (to_double (90 * to_double (7 / 10))) = 62"
    by (simp add: float_defs Let_def py_int_def)
  have fin: "\<not> double_limit \<le> 90" "\<not> double_limit \<le> \<bar>to_double (90 * to_double (7 / 10))\<bar>"
    by (simp_all add: float_defs Let_def)
  have el: "WATER \<notin> set (elemental_weakness great_jaggi_stats)"
    "WATER \<in> set (elemental_resistance great_jaggi_stats)"
    by (simp_all add: great_jaggi_stats_def)
  have h0: "current_health fresh_jaggi = 800"
    by (simp add: fresh_jaggi_def MonsterAI_init_def great_jaggi_stats_def)
  have h: "current_health (fst (take_damage calm great_jaggi_stats fresh_jaggi 90 WATER None 0)) = 738"
    using take_damage_law [where amount = 90 and element = WATER and st = great_jaggi_stats
      and env = calm and m = fresh_jaggi and se = None and sd = 0] fin t
    by (simp add: Let_def d el h0)
  show ?thesis using h ev by (simp add: py_int_def)
qed

text \<open>
  Beyond \<open>2 ^ 53\<close> the conversion of the amount to a float loses bits, and beyond the
  range of floats it raises before the agent is touched.
\<close>

lemma take_damage_large_amount:
  "take_damage calm great_jaggi_stats fresh_jaggi (2 ^ 53 + 1) PHYSICAL None 0
     = (fresh_jaggi\<lparr>current_health := 0\<rparr>, Inr (Defeated (2 ^ 53)))"
  by (simp add: take_damage_def damage_multiplier_def great_jaggi_stats_def fresh_jaggi_def
      MonsterAI_init_def py_int_def float_defs Let_def calm_def)

lemma take_damage_overflow:
  "take_damage calm great_jaggi_stats fresh_jaggi (2 ^ 1024) PHYSICAL None 0
     = (fresh_jaggi, Inl OverflowError)"
  by (simp add: take_damage_def damage_multiplier_def great_jaggi_stats_def fresh_jaggi_def
      MonsterAI_init_def py_int_def float_defs Let_def calm_def)

subsection \<open>Pattern selection\<close>

lemma generate_nonempty: "generate_attack_patterns st \<noteq> []"
  by (simp add: generate_attack_patterns_def split: MonsterType.split)

lemma generate_length:
  "length (generate_attack_patterns st) =
     (if monster_type st \<in> {GREAT_JAGGI, RATHIAN, TIGREX} then 3 else 1)"
  by (cases "monster_type st") (simp_all add: generate_attack_patterns_def)

lemma init_pattern_ok: "pattern_ok (MonsterAI_init ref st pos t)"
  by (simp add: pattern_ok_def MonsterAI_init_def generate_nonempty)

lemma status_loop_patterns:
  "attack_patterns (fst (status_loop t dt es m acc)) = attack_patterns m
   \<and> current_pattern_index (fst (status_loop t dt es m acc)) = current_pattern_index m"
  by (induction es arbitrary: m acc)
     (auto simp: apply_active_def apply_expired_def split: StatusEffect.split)

lemma update_status_effects_patterns:
  "attack_patterns (update_status_effects t m dt) = attack_patterns m
   \<and> current_pattern_index (update_status_effects t m dt) = current_pattern_index m"
  using status_loop_patterns [of t dt "status_effects m" m "[]"]
  by (cases "status_loop t dt (status_effects m) m []") (simp add: update_status_effects_def)

lemma update_status_effects_pattern_ok:
  "pattern_ok m \<Longrightarrow> pattern_ok (update_status_effects t m dt)"
  by (simp add: pattern_ok_def update_status_effects_patterns)

lemma rage_check_pattern_ok: "pattern_ok m \<Longrightarrow> pattern_ok (snd (rage_check t st m))"
  by (simp add: rage_check_def become_enraged_def pattern_ok_def)

lemma perform_attack_pattern_ok:
  "pattern_ok m \<Longrightarrow> pattern_ok (fst (perform_attack st m p t))"
  by (simp add: perform_attack_def pattern_ok_def Let_def split: option.split)

lemma chase_pattern_ok: "pattern_ok m \<Longrightarrow> pattern_ok (fst (chase_player st m p dt))"
  by (simp add: chase_player_def pattern_ok_def Let_def)

lemma idle_pattern_ok: "pattern_ok m \<Longrightarrow> pattern_ok (fst (idle_behavior env st m dt))"
  by (simp add: idle_behavior_def pattern_ok_def Let_def)

lemma target_pattern_ok: "pattern_ok m \<Longrightarrow> pattern_ok (m\<lparr>target_player := q\<rparr>)"
  by (simp add: pattern_ok_def)

lemma behave_pattern_ok:
  assumes "pattern_ok m"
  shows "pattern_ok (fst (behave env st m dt ps))"
proof (cases "find_nearest_player m ps")
  case None
  then show ?thesis
    using idle_pattern_ok [OF assms, of env st dt]
    by (simp add: behave_def case_prod_beta)
next
  case (Some p)
  let ?m3 = "m\<lparr>target_player := Some p\<rparr>"
  have ok3: "pattern_ok ?m3" using assms by (rule target_pattern_ok)
  show ?thesis
    using Some perform_attack_pattern_ok [OF ok3, of st p "now env"]
      chase_pattern_ok [OF ok3, of st p dt] idle_pattern_ok [OF ok3, of env st dt]
    by (simp add: behave_def Let_def case_prod_beta)
qed

lemma update_pattern_ok:
  assumes "pattern_ok m"
  shows "pattern_ok (fst (snd (update env st m dt ps)))"
  using behave_pattern_ok [OF rage_check_pattern_ok [OF update_status_effects_pattern_ok [OF assms]]]
    update_status_effects_pattern_ok [OF assms]
  by (simp add: update_phases)

lemma take_damage_pattern_ok:
  "pattern_ok m \<Longrightarrow> pattern_ok (fst (take_damage env st m d a s sd))"
  by (simp add: take_damage_def float_of_int_def pattern_ok_def Let_def
      split: option.split sum.split)

lemma agent_step_pattern_ok:
  "pattern_ok (snd sm) \<Longrightarrow> pattern_ok (snd (agent_step sm op))"
proof (cases sm)
  case (Pair st m)
  assume "pattern_ok (snd sm)"
  then have ok: "pattern_ok m" using Pair by simp
  show ?thesis
  proof (cases op)
    case (AUpdate env dt ps)
    then show ?thesis
      using Pair update_pattern_ok [OF ok, of env st dt ps]
      by (simp add: case_prod_beta)
  next
    case (ADamage env d a s sd)
    then show ?thesis
      using Pair take_damage_pattern_ok [OF ok] by simp
  qed
qed

lemma foldl_agent_step_pattern_ok:
  "pattern_ok (snd sm) \<Longrightarrow> pattern_ok (snd (foldl agent_step sm ops))"
  by (induction ops arbitrary: sm) (simp_all add: agent_step_pattern_ok)

lemma perform_attack_no_index_error:
  "pattern_ok m \<Longrightarrow> snd (perform_attack st m p t) \<noteq> Inl IndexError
     \<and> snd (perform_attack st m p t) \<noteq> Inl ZeroDivisionError"
  by (simp add: perform_attack_def pattern_ok_def Let_def split: option.split)

text \<open>
  C10: the attack-pattern list of every species is non-empty (three patterns for the
  species with a table, the one-element fallback for the others), so an agent, as constructed and after any run of
  \<open>update\<close> and \<open>take_damage\<close> calls, has a non-empty pattern list and a pattern index
  inside it; selecting the pattern in \<open>perform_attack\<close> then raises neither IndexError
  nor ZeroDivisionError.
\<close>

theorem pattern_selection_total:
  "generate_attack_patterns st \<noteq> []
   \<and> length (generate_attack_patterns st) =
       (if monster_type st \<in> {GREAT_JAGGI, RATHIAN, TIGREX} then 3 else 1)
   \<and> pattern_ok (snd (run_agent st (MonsterAI_init ref st pos t) ops))
   \<and> snd (perform_attack st' (snd (run_agent st (MonsterAI_init ref st pos t) ops)) p t')
       \<noteq> Inl IndexError
   \<and> snd (perform_attack st' (snd (run_agent st (MonsterAI_init ref st pos t) ops)) p t')
       \<noteq> Inl ZeroDivisionError"
proof -
  have ok: "pattern_ok (snd (run_agent st (MonsterAI_init ref st pos t) ops))"
    unfolding run_agent_def
    by (rule foldl_agent_step_pattern_ok) (simp add: init_pattern_ok)
  show ?thesis
    using ok perform_attack_no_index_error [OF ok, of st' p t'] generate_nonempty [of st]
      generate_length [of st]
    by simp
qed

subsection \<open>Evaluating the scenes\<close>

lemmas scene_defs = great_jaggi_stats_def fresh_jaggi_def MonsterAI_init_def origin_def hunter_def
  calm_def tick1_def tick2_def generate_attack_patterns_def sweep1_def MonsterSpawner_init_def

lemmas code_defs = update_def update_status_effects_def become_enraged_def perform_attack_def
  chase_player_def idle_behavior_def take_damage_def damage_multiplier_def find_nearest_player_def
  distance_to_def move_towards_def py_int_def apply_active_def apply_expired_def run_agent_def
  float_defs

lemma sqrt_25: "sqrt 25 = 5"
  using real_sqrt_abs [of 5] by simp

lemma str_0: "str_int 0 = ''0''"
  by (simp add: str_int_def)

lemma str_1000: "str_int 1000 = ''1000''"
  by (simp add: str_int_def)

lemma str_1001: "str_int 1001 = ''1001''"
  by (simp add: str_int_def)

lemma enraged_scene_eq:
  "enraged_scene =
     (great_jaggi_stats\<lparr>attack := 67\<rparr>,
      fresh_jaggi\<lparr>current_health := 200, is_enraged := True, rage_timer := 10,
        attack_cooldown := 14 / 10, target_player := Some hunter, current_pattern_index := 1,
        last_attack_time := 10\<rparr>)"
  by (simp add: enraged_scene_def scene_defs code_defs Let_def)

lemma one_jaggi_eq:
  "one_jaggi = MonsterSpawner_init\<lparr>active_monsters := [(''great_jaggi_0_1000'', fresh_jaggi)]\<rparr>"
  by (simp add: one_jaggi_def spawn_monster_def MonsterSpawner_init_def Let_def py_int_def
      str_0 str_1000 fresh_jaggi_def)

lemma two_jaggis_eq:
  "two_jaggis = MonsterSpawner_init\<lparr>active_monsters :=
      [(''great_jaggi_0_1000'', fresh_jaggi), (''great_jaggi_0_1001'', fresh_jaggi)]\<rparr>"
  by (simp add: two_jaggis_def one_jaggi_eq spawn_monster_def MonsterSpawner_init_def Let_def py_int_def
      str_0 str_1001 fresh_jaggi_def)

lemma dead_jaggi_eq:
  "dead_jaggi = MonsterSpawner_init\<lparr>active_monsters :=
      [(''great_jaggi_0_1000'', fresh_jaggi\<lparr>current_health := 0\<rparr>)]\<rparr>"
  by (simp add: dead_jaggi_def one_jaggi_eq damage_monster_def scene_defs code_defs Let_def)

lemma wounded_pair_eq:
  "wounded_pair = MonsterSpawner_init\<lparr>active_monsters :=
      [(''great_jaggi_0_1000'', fresh_jaggi\<lparr>current_health := 200\<rparr>),
       (''great_jaggi_0_1001'', fresh_jaggi)]\<rparr>"
  by (simp add: wounded_pair_def two_jaggis_eq damage_monster_def scene_defs code_defs Let_def)

subsection \<open>Damage dealt\<close>

text \<open>
  C5, as the specification states it, fails: \<open>perform_attack\<close> converts the enraged
  damage with \<^verbatim>\<open>int(...)\<close>, which truncates. The enraged Great Jaggi of \<open>enraged_scene\<close>
  attacks with Charge (damage 25, multiplier 1.5, \<open>25 * 1.5 = 37.5\<close>) for 37, where rounding
  gives 38.
\<close>

theorem attack_round_counterexample:
  "snd (snd (update tick2 (fst enraged_scene) (snd enraged_scene) 1 [hunter]))
     = Inr (Attack ''Charge'' 37 origin ''player1'' PHYSICAL None)
   \<and> spec_attack_damage
       (attack_patterns (snd enraged_scene) ! current_pattern_index (snd enraged_scene))
       (is_enraged (snd enraged_scene)) (enrage_multiplier (fst enraged_scene)) 0 = 38"
  by (simp add: enraged_scene_eq spec_attack_damage_def py_round_def scene_defs code_defs Let_def)

text \<open>
  C5 (amended): for every attack that hits (the agent is off cooldown and the target is
  within the selected pattern's range), the \<open>Attack\<close> action emitted carries the damage
  \<open>max(1, base - target.defense)\<close>, where \<open>base\<close> is \<open>int(pattern.damage * enrage_multiplier)\<close>
  (truncated toward zero) for an enraged agent and \<open>pattern.damage\<close> otherwise, and a missing
  defense counts as 0; the status the pattern defines is carried in the action for the
  target, and the agent itself changes only its pattern index and \<open>last_attack_time\<close>
  (no status is applied to it). A player dictionary without a name makes the log line of
  the hit raise KeyError.
\<close>

theorem perform_attack_hit:
  assumes ready: "attack_cooldown m \<le> current_time - last_attack_time m"
    and idx: "current_pattern_index m < length (attack_patterns m)"
    and pat: "pat = attack_patterns m ! current_pattern_index m"
    and hit: "distance_to (position m) (p_position player) \<le> a_range pat"
  shows "snd (perform_attack st m player current_time) =
           (case p_name player of
              None \<Rightarrow> Inl KeyError
            | Some _ \<Rightarrow>
                Inr (Attack (a_name pat)
                       (max 1 ((if is_enraged m
                                then py_int (of_int (a_damage pat) * enrage_multiplier st)
                                else a_damage pat)
                               - (case p_defense player of None \<Rightarrow> 0 | Some d \<Rightarrow> d)))
                       (position m) (p_id player)
                       (case a_type pat of None \<Rightarrow> PHYSICAL | Some t \<Rightarrow> t)
                       (a_status pat)))
         \<and> fst (perform_attack st m player current_time) =
             m\<lparr>current_pattern_index :=
                  (current_pattern_index m + 1) mod length (attack_patterns m),
               last_attack_time := current_time\<rparr>"
proof -
  have ne: "length (attack_patterns m) \<noteq> 0" using idx by auto
  show ?thesis
    using assms ne by (simp add: perform_attack_def Let_def split: option.split)
qed

text \<open>C5, witness: a fresh Great Jaggi at clock 10 hits the hunter with Tail Swipe for 15.\<close>

theorem perform_attack_hit_witness:
  "attack_cooldown fresh_jaggi \<le> 10 - last_attack_time fresh_jaggi
   \<and> current_pattern_index fresh_jaggi < length (attack_patterns fresh_jaggi)
   \<and> distance_to (position fresh_jaggi) (p_position hunter)
        \<le> a_range (attack_patterns fresh_jaggi ! current_pattern_index fresh_jaggi)
   \<and> snd (perform_attack great_jaggi_stats fresh_jaggi hunter 10)
        = Inr (Attack ''Tail Swipe'' 15 origin ''player1'' PHYSICAL None)
   \<and> status_effects (fst (perform_attack great_jaggi_stats fresh_jaggi hunter 10)) = []"
proof -
  have ready: "attack_cooldown fresh_jaggi \<le> 10 - last_attack_time fresh_jaggi"
    by (simp add: scene_defs)
  have idx: "current_pattern_index fresh_jaggi < length (attack_patterns fresh_jaggi)"
    by (simp add: scene_defs)
  have hit: "distance_to (position fresh_jaggi) (p_position hunter)
        \<le> a_range (attack_patterns fresh_jaggi ! current_pattern_index fresh_jaggi)"
    by (simp add: scene_defs distance_to_def)
  show ?thesis
    using ready idx hit perform_attack_hit [OF ready idx refl hit, of great_jaggi_stats]
    by (simp add: scene_defs)
qed

subsection \<open>The behaviour chosen by \<open>update\<close>\<close>

text \<open>The four ways \<open>behave\<close> goes once a nearest player is found.\<close>

lemma behave_blocked:
  assumes "find_nearest_player m ps = Some p" and "is_stunned m \<or> is_sleeping m"
  shows "behave env st m dt ps =
           (fst (idle_behavior env st (m\<lparr>target_player := Some p\<rparr>) dt),
            Inr (snd (idle_behavior env st (m\<lparr>target_player := Some p\<rparr>) dt)))"
  using assms by (auto simp: behave_def Let_def case_prod_beta)

lemma behave_attack:
  assumes "find_nearest_player m ps = Some p" and "\<not> is_stunned m" and "\<not> is_sleeping m"
    and "distance_to (position m) (p_position p) \<le> 2"
  shows "behave env st m dt ps = perform_attack st (m\<lparr>target_player := Some p\<rparr>) p (now env)"
  using assms by (simp add: behave_def Let_def)

lemma behave_chase:
  assumes "find_nearest_player m ps = Some p" and "\<not> is_stunned m" and "\<not> is_sleeping m"
    and "\<not> distance_to (position m) (p_position p) \<le> 2"
    and "distance_to (position m) (p_position p) \<le> 15"
  shows "behave env st m dt ps =
           (fst (chase_player st (m\<lparr>target_player := Some p\<rparr>) p dt),
            Inr (snd (chase_player st (m\<lparr>target_player := Some p\<rparr>) p dt)))"
  using assms by (simp add: behave_def Let_def case_prod_beta)

lemma behave_far:
  assumes "find_nearest_player m ps = Some p"
    and "\<not> distance_to (position m) (p_position p) \<le> 15"
  shows "behave env st m dt ps =
           (fst (idle_behavior env st (m\<lparr>target_player := Some p\<rparr>) dt),
            Inr (snd (idle_behavior env st (m\<lparr>target_player := Some p\<rparr>) dt)))"
  using assms by (simp add: behave_def Let_def case_prod_beta)

lemma behave_alone:
  assumes "find_nearest_player m ps = None"
  shows "behave env st m dt ps =
           (fst (idle_behavior env st m dt), Inr (snd (idle_behavior env st m dt)))"
  using assms by (simp add: behave_def case_prod_beta)

lemma status_loop_keeps:
  "position (fst (status_loop t dt es m acc)) = position m
   \<and> last_attack_time (fst (status_loop t dt es m acc)) = last_attack_time m"
  by (induction es arbitrary: m acc)
     (auto simp: apply_active_def apply_expired_def split: StatusEffect.split)

lemma update_status_effects_keeps:
  "position (update_status_effects t m dt) = position m
   \<and> last_attack_time (update_status_effects t m dt) = last_attack_time m"
  using status_loop_keeps [of t dt "status_effects m" m "[]"]
  by (simp add: update_status_effects_def case_prod_beta)

lemma rage_check_keeps:
  "position (snd (rage_check t st m)) = position m
   \<and> last_attack_time (snd (rage_check t st m)) = last_attack_time m
   \<and> attack_patterns (snd (rage_check t st m)) = attack_patterns m
   \<and> current_pattern_index (snd (rage_check t st m)) = current_pattern_index m"
  by (simp add: rage_check_def become_enraged_def)

lemma find_nearest_player_position:
  "position a = position b \<Longrightarrow> find_nearest_player a ps = find_nearest_player b ps"
  by (simp add: find_nearest_player_def)

subsection \<open>The per-pattern cooldown is never read\<close>

lemma apply_active_retime: "apply_active dt e (retime f m) = retime f (apply_active dt e m)"
  by (cases "effect e") (simp_all add: apply_active_def retime_def)

lemma apply_expired_retime: "apply_expired e (retime f m) = retime f (apply_expired e m)"
  by (cases "effect e") (simp_all add: apply_expired_def retime_def)

lemma status_loop_retime:
  "status_loop t dt es (retime f m) acc =
     (retime f (fst (status_loop t dt es m acc)), snd (status_loop t dt es m acc))"
  by (induction es arbitrary: m acc) (simp_all add: apply_active_retime apply_expired_retime)

lemma update_status_effects_retime:
  "update_status_effects t (retime f m) dt = retime f (update_status_effects t m dt)"
proof -
  have se: "status_effects (retime f m) = status_effects m" by (simp add: retime_def)
  show ?thesis
    by (simp add: update_status_effects_def se status_loop_retime case_prod_beta)
       (simp add: retime_def)
qed

lemma rage_check_retime:
  "rage_check t st (retime f m) = (fst (rage_check t st m), retime f (snd (rage_check t st m)))"
  by (simp add: rage_check_def become_enraged_def retime_def)

lemma find_nearest_player_retime: "find_nearest_player (retime f m) ps = find_nearest_player m ps"
  by (simp add: find_nearest_player_def retime_def)

lemma perform_attack_retime:
  "perform_attack st (retime f m) p t =
     (retime f (fst (perform_attack st m p t)), snd (perform_attack st m p t))"
  by (simp add: perform_attack_def retime_def Let_def split: option.split)

lemma chase_player_retime:
  "chase_player st (retime f m) p dt =
     (retime f (fst (chase_player st m p dt)), snd (chase_player st m p dt))"
  by (simp add: chase_player_def retime_def Let_def)

lemma idle_behavior_retime:
  "idle_behavior env st (retime f m) dt =
     (retime f (fst (idle_behavior env st m dt)), snd (idle_behavior env st m dt))"
  by (simp add: idle_behavior_def retime_def Let_def)

lemma retime_target: "(retime f m)\<lparr>target_player := q\<rparr> = retime f (m\<lparr>target_player := q\<rparr>)"
  by (simp add: retime_def)

lemma retime_reads:
  "position (retime f m) = position m" "is_stunned (retime f m) = is_stunned m"
  "is_sleeping (retime f m) = is_sleeping m"
  by (simp_all add: retime_def)

lemma behave_retime:
  "behave env st (retime f m) dt ps =
     (retime f (fst (behave env st m dt ps)), snd (behave env st m dt ps))"
proof (cases "find_nearest_player m ps")
  case None
  then have "find_nearest_player (retime f m) ps = None"
    by (simp add: find_nearest_player_retime)
  then show ?thesis
    using None by (simp add: behave_alone idle_behavior_retime)
next
  case (Some p)
  then have near: "find_nearest_player (retime f m) ps = Some p"
    by (simp add: find_nearest_player_retime)
  let ?d = "distance_to (position m) (p_position p)"
  consider (blocked) "is_stunned m \<or> is_sleeping m"
    | (attack) "\<not> is_stunned m" "\<not> is_sleeping m" "?d \<le> 2"
    | (chase) "\<not> is_stunned m" "\<not> is_sleeping m" "\<not> ?d \<le> 2" "?d \<le> 15"
    | (far) "\<not> ?d \<le> 15"
    by blast
  then show ?thesis
  proof cases
    case blocked
    then have "is_stunned (retime f m) \<or> is_sleeping (retime f m)"
      by (simp add: retime_reads)
    then show ?thesis
      using blocked
      by (simp add: behave_blocked [OF near] behave_blocked [OF Some] retime_target
          idle_behavior_retime)
  next
    case attack
    then have "\<not> is_stunned (retime f m)" "\<not> is_sleeping (retime f m)"
      "distance_to (position (retime f m)) (p_position p) \<le> 2"
      by (simp_all add: retime_reads)
    then show ?thesis
      using attack
      by (simp add: behave_attack [OF near] behave_attack [OF Some] retime_target
          perform_attack_retime)
  next
    case chase
    then have "\<not> is_stunned (retime f m)" "\<not> is_sleeping (retime f m)"
      "\<not> distance_to (position (retime f m)) (p_position p) \<le> 2"
      "distance_to (position (retime f m)) (p_position p) \<le> 15"
      by (simp_all add: retime_reads)
    then show ?thesis
      using chase
      by (simp add: behave_chase [OF near] behave_chase [OF Some] retime_target
          chase_player_retime)
  next
    case far
    then have "\<not> distance_to (position (retime f m)) (p_position p) \<le> 15"
      by (simp add: retime_reads)
    then show ?thesis
      using far
      by (simp add: behave_far [OF near] behave_far [OF Some] retime_target
          idle_behavior_retime)
  qed
qed

lemma update_retime:
  "update env st (retime f m) dt ps =
     (fst (update env st m dt ps), retime f (fst (snd (update env st m dt ps))),
      snd (snd (update env st m dt ps)))"
  by (simp add: update_phases update_status_effects_retime rage_check_retime behave_retime)

subsection \<open>The attack gate\<close>

lemma perform_attack_gate:
  assumes "pattern_ok m"
  shows "(snd (perform_attack st m p t) = Inr (Cooldown (position m)))
           = (t - last_attack_time m < attack_cooldown m)
       \<and> current_pattern_index (fst (perform_attack st m p t)) =
           (if t - last_attack_time m < attack_cooldown m then current_pattern_index m
            else (current_pattern_index m + 1) mod length (attack_patterns m))"
  using assms by (simp add: perform_attack_def pattern_ok_def Let_def split: option.split)

text \<open>
  C8: when the nearest player is within attack distance (2.0) and the agent, after this
  tick's status effects, is neither stunned nor asleep, \<open>update\<close> answers \<open>Cooldown\<close>
  exactly when \<open>now - last_attack_time < attack_cooldown\<close> (the agent-wide timer, as it
  stands after the rage check of the tick), and otherwise attempts an attack; the pattern
  index is unchanged on cooldown and advances by one slot modulo the length of the
  pattern list on every attempt, whether it hits or misses. Rewriting the \<^verbatim>\<open>cooldown\<close>
  entries of the patterns in any way changes neither the action nor the rest of the
  resulting state.
\<close>

theorem attack_gate:
  assumes live: "max_health st \<noteq> 0"
    and m2: "m2 = snd (rage_check (now env) st (update_status_effects (now env) m dt))"
    and near: "find_nearest_player m players = Some p"
    and close: "distance_to (position m) (p_position p) \<le> 2"
    and awake: "\<not> is_stunned m2" "\<not> is_sleeping m2"
    and ok: "pattern_ok m"
  shows "(snd (snd (update env st m dt players)) = Inr (Cooldown (position m)))
           = (now env - last_attack_time m < attack_cooldown m2)
       \<and> current_pattern_index (fst (snd (update env st m dt players))) =
           (if now env - last_attack_time m < attack_cooldown m2 then current_pattern_index m
            else (current_pattern_index m + 1) mod length (attack_patterns m))
       \<and> update env st (retime f m) dt players =
           (fst (update env st m dt players), retime f (fst (snd (update env st m dt players))),
            snd (snd (update env st m dt players)))"
proof -
  let ?m1 = "update_status_effects (now env) m dt"
  let ?st2 = "fst (rage_check (now env) st ?m1)"
  let ?m3 = "m2\<lparr>target_player := Some p\<rparr>"
  have keep: "position m2 = position m" "last_attack_time m2 = last_attack_time m"
    "attack_patterns m2 = attack_patterns m" "current_pattern_index m2 = current_pattern_index m"
    using rage_check_keeps [of "now env" st ?m1] update_status_effects_keeps [of "now env" m dt]
      update_status_effects_patterns [of "now env" m dt]
    by (simp_all add: m2)
  have near2: "find_nearest_player m2 players = Some p"
    using near find_nearest_player_position [OF keep(1), of players] by simp
  have close2: "distance_to (position m2) (p_position p) \<le> 2"
    using close keep(1) by simp
  have upd: "update env st m dt players = (?st2, perform_attack ?st2 ?m3 p (now env))"
    using live behave_attack [OF near2 awake close2, of env ?st2 dt]
    by (simp add: update_phases m2 [symmetric])
  have ok3: "pattern_ok ?m3"
    using ok keep(3,4) by (simp add: pattern_ok_def)
  have gate: "(snd (perform_attack ?st2 ?m3 p (now env)) = Inr (Cooldown (position ?m3)))
           = (now env - last_attack_time ?m3 < attack_cooldown ?m3)
       \<and> current_pattern_index (fst (perform_attack ?st2 ?m3 p (now env))) =
           (if now env - last_attack_time ?m3 < attack_cooldown ?m3 then current_pattern_index ?m3
            else (current_pattern_index ?m3 + 1) mod length (attack_patterns ?m3))"
    by (rule perform_attack_gate [OF ok3])
  show ?thesis
    using gate keep by (simp add: upd update_retime [of env st f m dt players, unfolded upd])
qed

text \<open>
  C8, witness: a fresh Great Jaggi at clock 10 with the hunter on top of it is off
  cooldown, does not answer \<open>Cooldown\<close>, and its pattern index moves from 0 to 1.
\<close>

theorem attack_gate_witness:
  "max_health great_jaggi_stats \<noteq> 0
   \<and> find_nearest_player fresh_jaggi [hunter] = Some hunter
   \<and> distance_to (position fresh_jaggi) (p_position hunter) \<le> 2
   \<and> pattern_ok fresh_jaggi
   \<and> attack_cooldown fresh_jaggi \<le> now tick1 - last_attack_time fresh_jaggi
   \<and> snd (snd (update tick1 great_jaggi_stats fresh_jaggi 1 [hunter])) \<noteq> Inr (Cooldown origin)
   \<and> current_pattern_index (fst (snd (update tick1 great_jaggi_stats fresh_jaggi 1 [hunter]))) = 1"
proof -
  have live: "max_health great_jaggi_stats \<noteq> 0" by (simp add: great_jaggi_stats_def)
  have m2: "fresh_jaggi =
      snd (rage_check (now tick1) great_jaggi_stats (update_status_effects (now tick1) fresh_jaggi 1))"
    by (simp add: rage_check_def update_status_effects_def fresh_jaggi_def MonsterAI_init_def
        great_jaggi_stats_def)
  have near: "find_nearest_player fresh_jaggi [hunter] = Some hunter"
    by (simp add: find_nearest_player_def)
  have close: "distance_to (position fresh_jaggi) (p_position hunter) \<le> 2"
    by (simp add: distance_to_def fresh_jaggi_def MonsterAI_init_def hunter_def)
  have awake: "\<not> is_stunned fresh_jaggi" "\<not> is_sleeping fresh_jaggi"
    by (simp_all add: fresh_jaggi_def MonsterAI_init_def)
  have ok: "pattern_ok fresh_jaggi"
    by (simp add: fresh_jaggi_def init_pattern_ok)
  have ready: "attack_cooldown fresh_jaggi \<le> now tick1 - last_attack_time fresh_jaggi"
    by (simp add: fresh_jaggi_def MonsterAI_init_def tick1_def)
  have len: "length (attack_patterns fresh_jaggi) = 3" "current_pattern_index fresh_jaggi = 0"
    "position fresh_jaggi = origin"
    by (simp_all add: fresh_jaggi_def MonsterAI_init_def generate_attack_patterns_def
        great_jaggi_stats_def)
  show ?thesis
    using attack_gate [OF live m2 near close awake ok, of id] live near close ok ready len
    by simp
qed

subsection \<open>Status effects and health\<close>

text \<open>
  C7 on the code: two paralysis instances are stacked, 10 seconds from clock 0 and 2
  seconds from clock 1. The tick at clock 2 sets \<open>is_stunned\<close>; the tick at clock 5 visits the
  first instance (active, sets the flag) and then the second (expired, clears it), and
  leaves \<open>is_stunned\<close> false while the first instance is still active and still listed.
\<close>

theorem stacked_flag_cleared:
  "status_effects stacked_jaggi =
     [\<lparr>effect = PARALYSIS, duration = 10, intensity = 1, start_time = 0\<rparr>,
      \<lparr>effect = PARALYSIS, duration = 2, intensity = 1, start_time = 1\<rparr>]
   \<and> is_stunned (update_status_effects 2 stacked_jaggi 1)
   \<and> \<not> is_stunned (update_status_effects 5 (update_status_effects 2 stacked_jaggi 1) 1)
   \<and> status_effects (update_status_effects 5 (update_status_effects 2 stacked_jaggi 1) 1) =
       [\<lparr>effect = PARALYSIS, duration = 10, intensity = 1, start_time = 0\<rparr>]"
  by (simp add: stacked_jaggi_def paralysed_jaggi_def scene_defs code_defs Let_def)

text \<open>
  C2 on the code: a Great Jaggi at health 1 with an active poison of intensity 1 is updated
  with \<open>delta_time = 2\<close>; the poison branch subtracts without a floor and leaves health - 1.
\<close>

theorem poison_below_zero:
  "current_health poisoned_jaggi = 1
   \<and> current_health
       (fst (snd (update \<lparr>now = 1, move_wait = 3, off_x = 3, off_z = 4\<rparr> great_jaggi_stats
                    poisoned_jaggi 2 []))) = - 1"
  by (simp add: poisoned_jaggi_def scene_defs code_defs Let_def)

text \<open>What holds of C6: a sleeping agent answers \<open>Sleep\<close> on every branch and does not move.\<close>

lemma sleeping_agent_rests:
  assumes "is_sleeping m"
  shows "snd (behave env st m dt ps) = Inr (Sleep (position m))
       \<and> position (fst (behave env st m dt ps)) = position m"
proof (cases "find_nearest_player m ps")
  case None
  then show ?thesis using assms by (simp add: behave_alone idle_behavior_def)
next
  case (Some p)
  have "is_stunned m \<or> is_sleeping m" using assms by simp
  then show ?thesis
    using assms by (simp add: behave_blocked [OF Some] idle_behavior_def)
qed

text \<open>
  C6 on the code: a paralysed (stunned, not sleeping) Great Jaggi with the hunter in attack
  distance falls through to \<open>idle_behavior\<close>, which checks only \<open>is_sleeping\<close>: it picks a new
  destination, walks toward it and answers \<open>Patrol\<close>, not \<open>Stunned\<close>.
\<close>

theorem stunned_agent_patrols:
  "update \<lparr>now = 5, move_wait = 3, off_x = 3, off_z = 4\<rparr> great_jaggi_stats paralysed_jaggi 1 [hunter]
     = (great_jaggi_stats,
        paralysed_jaggi\<lparr>is_stunned := True, target_player := Some hunter,
          target_position := \<lparr>px = 3, py = 0, pz = 4\<rparr>, last_movement := 5,
          position := \<lparr>px = 27 / 50, py = 0, pz = 18 / 25\<rparr>\<rparr>,
        Inr (Patrol \<lparr>px = 27 / 50, py = 0, pz = 18 / 25\<rparr>))"
  by (simp add: paralysed_jaggi_def scene_defs code_defs Let_def sqrt_25)

subsection \<open>The population cap\<close>

lemma length_alist_update_le: "length (AList.update k v al) \<le> Suc (length al)"
  by (induction al) auto

lemma length_alist_update_present:
  "map_of al k = Some v' \<Longrightarrow> length (AList.update k v al) = length al"
  by (induction al) (auto split: if_splits)

lemma length_fold_delete_le: "length (fold AList.delete ks al) \<le> length al"
proof (induction ks arbitrary: al)
  case Nil
  show ?case by simp
next
  case (Cons k ks)
  have "length (fold AList.delete ks (AList.delete k al)) \<le> length (AList.delete k al)"
    by (rule Cons.IH)
  also have "\<dots> \<le> length al" by (rule AList.length_delete_le)
  finally show ?case by simp
qed

lemma distinct_fold_delete:
  "distinct (map fst al) \<Longrightarrow> distinct (map fst (fold AList.delete ks al))"
  by (induction ks arbitrary: al) (simp_all add: AList.distinct_delete)

lemma sweep_keys:
  "map fst (fst (snd (sweep envs dt ps xs store))) = map fst xs"
proof (induction xs arbitrary: store)
  case Nil
  show ?case by simp
next
  case (Cons x xs)
  obtain k m where x: "x = (k, m)" by (cases x)
  show ?case
    by (simp add: x case_prod_beta Cons.IH split: sum.split)
qed

lemma swept_population_ok:
  assumes "population_ok s"
  shows "distinct (map fst (swept_population env s dt ps))"
    and "length (swept_population env s dt ps) \<le> length (active_monsters s)"
proof -
  let ?r = "sweep (tick_envs env) dt ps (active_monsters s) (stats_store s)"
  have keys: "map fst (fst (snd ?r)) = map fst (active_monsters s)" by (rule sweep_keys)
  have sp: "swept_population env s dt ps = fold AList.delete (snd (snd (snd ?r))) (fst (snd ?r))"
    by (simp add: swept_population_def case_prod_beta)
  show "distinct (map fst (swept_population env s dt ps))"
    unfolding sp using assms keys by (intro distinct_fold_delete) (simp add: population_ok_def)
  have "length (swept_population env s dt ps) \<le> length (fst (snd ?r))"
    unfolding sp by (rule length_fold_delete_le)
  also have "\<dots> = length (active_monsters s)"
    using arg_cong [OF keys, of length] by simp
  finally show "length (swept_population env s dt ps) \<le> length (active_monsters s)" .
qed

lemma spawn_monster_ok:
  assumes "population_ok s"
  shows "population_ok (fst (spawn_monster env s mtype pos))
       \<and> max_monsters (fst (spawn_monster env s mtype pos)) = max_monsters s"
proof (cases "max_monsters s \<le> int (length (active_monsters s))
              \<or> map_of (monster_templates s) mtype = None")
  case True
  then show ?thesis using assms by (auto simp: spawn_monster_def)
next
  case False
  then obtain ref where ref: "map_of (monster_templates s) mtype = Some ref"
    and room: "int (length (active_monsters s)) < max_monsters s" by auto
  let ?k = "mtype @ ''_'' @ str_int (py_int (s_now env)) @ ''_'' @ str_int (rand_id env)"
  let ?v = "MonsterAI_init ref (stats_store s ref) pos (s_now env)"
  have eq: "fst (spawn_monster env s mtype pos)
              = s\<lparr>active_monsters := AList.update ?k ?v (active_monsters s)\<rparr>"
    using ref room by (simp add: spawn_monster_def Let_def)
  have "int (length (AList.update ?k ?v (active_monsters s))) \<le> max_monsters s"
    using length_alist_update_le [of ?k ?v "active_monsters s"] room by linarith
  then show ?thesis
    using assms by (simp add: eq population_ok_def AList.distinct_update)
qed

lemma spawn_random_monster_ok:
  assumes "population_ok s"
  shows "population_ok (fst (spawn_random_monster env s))
       \<and> max_monsters (fst (spawn_random_monster env s)) = max_monsters s"
  using assms spawn_monster_ok [OF assms]
  by (simp add: spawn_random_monster_def Let_def)

lemma update_monsters_active:
  "active_monsters (fst (update_monsters env s dt ps)) =
     (if spawn_interval s \<le> spawn_timer s + dt
         \<and> int (length (swept_population env s dt ps)) < max_monsters s
      then active_monsters (fst (spawn_random_monster env
             (s\<lparr>stats_store := fst (sweep (tick_envs env) dt ps (active_monsters s) (stats_store s)),
                active_monsters := swept_population env s dt ps,
                spawn_timer := spawn_timer s + dt\<rparr>)))
      else swept_population env s dt ps)"
  by (simp add: update_monsters_def swept_population_def Let_def case_prod_beta split: sum.split)

lemma spawn_monster_max: "max_monsters (fst (spawn_monster env s mtype pos)) = max_monsters s"
  by (simp add: spawn_monster_def Let_def split: option.split)

lemma spawn_random_monster_max: "max_monsters (fst (spawn_random_monster env s)) = max_monsters s"
  by (simp add: spawn_random_monster_def Let_def spawn_monster_max)

lemma update_monsters_max: "max_monsters (fst (update_monsters env s dt ps)) = max_monsters s"
  by (simp add: update_monsters_def Let_def case_prod_beta spawn_random_monster_max split: sum.split)

lemma update_monsters_ok:
  assumes "population_ok s"
  shows "population_ok (fst (update_monsters env s dt ps))"
proof -
  let ?s2 = "s\<lparr>stats_store := fst (sweep (tick_envs env) dt ps (active_monsters s) (stats_store s)),
                active_monsters := swept_population env s dt ps,
                spawn_timer := spawn_timer s + dt\<rparr>"
  have ok2: "population_ok ?s2"
    using swept_population_ok [OF assms, of env dt ps] assms by (simp add: population_ok_def)
  have sp: "population_ok (fst (spawn_random_monster env ?s2))"
    using spawn_random_monster_ok [OF ok2] by simp
  have mx: "max_monsters (fst (spawn_random_monster env ?s2)) = max_monsters s"
    by (simp add: spawn_random_monster_max)
  show ?thesis
    using ok2 sp mx
    by (simp add: population_ok_def update_monsters_active update_monsters_max)
qed

lemma damage_monster_ok:
  assumes "population_ok s"
  shows "population_ok (fst (damage_monster env s k d a se sd))
       \<and> max_monsters (fst (damage_monster env s k d a se sd)) = max_monsters s"
proof (cases "map_of (active_monsters s) k")
  case None
  then show ?thesis using assms by (simp add: damage_monster_def)
next
  case (Some m)
  then show ?thesis
    using assms length_alist_update_present [OF Some]
    by (simp add: damage_monster_def case_prod_beta population_ok_def AList.distinct_update)
qed

lemma spawner_step_ok:
  assumes "population_ok s"
  shows "population_ok (spawner_step s op) \<and> max_monsters (spawner_step s op) = max_monsters s"
proof (cases op)
  case (OpSpawn env mtype pos)
  then show ?thesis using spawn_monster_ok [OF assms] by simp
next
  case (OpTick env dt ps)
  then show ?thesis using update_monsters_ok [OF assms] update_monsters_max by simp
next
  case (OpDamage env k d a se sd)
  then show ?thesis using damage_monster_ok [OF assms] by simp
next
  case (OpAddPoint p)
  then show ?thesis using assms by (simp add: add_spawn_point_def population_ok_def)
qed

lemma run_spawner_ok:
  "population_ok s \<Longrightarrow>
     population_ok (run_spawner s ops) \<and> max_monsters (run_spawner s ops) = max_monsters s"
  unfolding run_spawner_def
proof (induction ops arbitrary: s)
  case Nil
  then show ?case by simp
next
  case (Cons op ops)
  have step: "population_ok (spawner_step s op)" "max_monsters (spawner_step s op) = max_monsters s"
    using spawner_step_ok [OF Cons.prems] by simp_all
  show ?case using Cons.IH [OF step(1)] step(2) by simp
qed

text \<open>
  C9: from a spawner whose population is within its cap, every run of spawn calls, ticks,
  damage calls and added spawn points leaves the population within the cap (the cap itself
  is never changed, and the keys stay distinct); \<open>spawn_monster\<close> returns none and leaves the
  spawner as it was when the population is at the cap or the species is unknown; and a
  tick whose swept population is at the cap adds no agent.
\<close>

theorem population_cap:
  assumes "distinct (map fst (active_monsters s))"
    and "int (length (active_monsters s)) \<le> max_monsters s"
  shows "int (length (active_monsters (run_spawner s ops))) \<le> max_monsters s
       \<and> distinct (map fst (active_monsters (run_spawner s ops)))
       \<and> max_monsters (run_spawner s ops) = max_monsters s
       \<and> (max_monsters s' \<le> int (length (active_monsters s'))
            \<or> map_of (monster_templates s') mtype = None
          \<longrightarrow> spawn_monster env s' mtype pos = (s', None))
       \<and> (max_monsters s' \<le> int (length (swept_population tenv s' dt ps))
          \<longrightarrow> active_monsters (fst (update_monsters tenv s' dt ps))
                = swept_population tenv s' dt ps)"
proof -
  have ok: "population_ok s" using assms by (simp add: population_ok_def)
  have run: "population_ok (run_spawner s ops)" "max_monsters (run_spawner s ops) = max_monsters s"
    using run_spawner_ok [OF ok] by simp_all
  have sp: "max_monsters s' \<le> int (length (active_monsters s'))
            \<or> map_of (monster_templates s') mtype = None
          \<longrightarrow> spawn_monster env s' mtype pos = (s', None)"
    by (auto simp: spawn_monster_def)
  have tick: "max_monsters s' \<le> int (length (swept_population tenv s' dt ps))
          \<longrightarrow> active_monsters (fst (update_monsters tenv s' dt ps))
                = swept_population tenv s' dt ps"
    by (simp add: update_monsters_active)
  show ?thesis using run sp tick by (simp add: population_ok_def)
qed

text \<open>
  C9, witness: a new spawner (cap 10) never holds more than 10 agents; the spawner
  \<open>crowded\<close> (cap 1, one agent) declines a spawn, and its tick with the cadence timer due
  adds no agent.
\<close>

theorem population_cap_witness:
  "(\<forall>ops. int (length (active_monsters (run_spawner MonsterSpawner_init ops))) \<le> 10)
   \<and> spawn_monster \<lparr>s_now = 5, rand_id = 1234\<rparr> crowded ''rathian'' origin = (crowded, None)
   \<and> spawn_interval crowded \<le> spawn_timer crowded + 30
   \<and> map fst (active_monsters (fst (update_monsters sweep1 crowded 30 []))) = [''great_jaggi_0_1000'']"
proof -
  have d: "distinct (map fst (active_monsters MonsterSpawner_init))"
    by (simp add: MonsterSpawner_init_def)
  have l: "int (length (active_monsters MonsterSpawner_init)) \<le> max_monsters MonsterSpawner_init"
    by (simp add: MonsterSpawner_init_def)
  have sw: "swept_population sweep1 crowded 30 [] =
     [(''great_jaggi_0_1000'', fresh_jaggi\<lparr>target_position := \<lparr>px = 3, py = 0, pz = 4\<rparr>,
         last_movement := 10, position := \<lparr>px = 3, py = 0, pz = 4\<rparr>\<rparr>)]"
    by (simp add: swept_population_def crowded_def one_jaggi_eq scene_defs code_defs Let_def sqrt_25)
  have full: "max_monsters crowded \<le> int (length (active_monsters crowded))"
    by (simp add: crowded_def one_jaggi_eq)
  have full': "max_monsters crowded \<le> int (length (swept_population sweep1 crowded 30 []))"
    by (simp add: sw) (simp add: crowded_def)
  have due: "spawn_interval crowded \<le> spawn_timer crowded + 30"
    by (simp add: crowded_def one_jaggi_eq MonsterSpawner_init_def)
  have "\<forall>ops. int (length (active_monsters (run_spawner MonsterSpawner_init ops))) \<le> 10"
    using population_cap [OF d l, of _ crowded] by (simp add: MonsterSpawner_init_def)
  moreover have "spawn_monster \<lparr>s_now = 5, rand_id = 1234\<rparr> crowded ''rathian'' origin = (crowded, None)"
    using population_cap [OF d l, of "[]" crowded "''rathian''" "\<lparr>s_now = 5, rand_id = 1234\<rparr>" origin] full
    by simp
  moreover have "map fst (active_monsters (fst (update_monsters sweep1 crowded 30 []))) = [''great_jaggi_0_1000'']"
    using population_cap [OF d l, of "[]" crowded _ _ _ sweep1 30 "[]"] full'
    by (simp add: sw)
  ultimately show ?thesis using due by simp
qed

subsection \<open>Defeat and removal\<close>

lemma perform_attack_not_defeated: "snd (perform_attack st m p t) \<noteq> Inr (Defeated d)"
  by (simp add: perform_attack_def Let_def split: option.split)

lemma chase_player_not_defeated: "snd (chase_player st m p dt) \<noteq> Defeated d"
  by (simp add: chase_player_def Let_def)

lemma idle_behavior_not_defeated: "snd (idle_behavior env st m dt) \<noteq> Defeated d"
  by (simp add: idle_behavior_def Let_def)

lemma behave_not_defeated: "snd (behave env st m dt ps) \<noteq> Inr (Defeated d)"
proof (cases "find_nearest_player m ps")
  case None
  then show ?thesis by (simp add: behave_alone idle_behavior_not_defeated)
next
  case (Some p)
  let ?d = "distance_to (position m) (p_position p)"
  consider (blocked) "is_stunned m \<or> is_sleeping m"
    | (attack) "\<not> is_stunned m" "\<not> is_sleeping m" "?d \<le> 2"
    | (chase) "\<not> is_stunned m" "\<not> is_sleeping m" "\<not> ?d \<le> 2" "?d \<le> 15"
    | (far) "\<not> ?d \<le> 15"
    by blast
  then show ?thesis
  proof cases
    case blocked
    then show ?thesis by (simp add: behave_blocked [OF Some] idle_behavior_not_defeated)
  next
    case attack
    then show ?thesis by (simp add: behave_attack [OF Some] perform_attack_not_defeated)
  next
    case chase
    then show ?thesis by (simp add: behave_chase [OF Some] chase_player_not_defeated)
  next
    case far
    then show ?thesis by (simp add: behave_far [OF Some] idle_behavior_not_defeated)
  qed
qed

lemma update_never_defeated: "snd (snd (update env st m dt ps)) \<noteq> Inr (Defeated d)"
  by (simp add: update_phases behave_not_defeated)

text \<open>
  C1 on the code: a Great Jaggi hit for its whole health answers \<open>Defeated\<close>, and answers it
  again on the next hit; the tick that follows does not report \<open>Defeated\<close> for it (the agent
  at health 0 patrols) and the agent stays in \<^verbatim>\<open>active_monsters\<close>.
\<close>

theorem defeated_never_swept:
  "snd (damage_monster calm one_jaggi ''great_jaggi_0_1000'' 800 PHYSICAL None 0)
        = Inr (Some (Defeated 800))
   \<and> snd (damage_monster calm dead_jaggi ''great_jaggi_0_1000'' 800 PHYSICAL None 0)
        = Inr (Some (Defeated 800))
   \<and> snd (update_monsters sweep1 dead_jaggi 1 [])
        = Inr [(''great_jaggi_0_1000'', Patrol \<lparr>px = 27 / 50, py = 0, pz = 18 / 25\<rparr>)]
   \<and> map fst (active_monsters (fst (update_monsters sweep1 dead_jaggi 1 []))) = [''great_jaggi_0_1000'']"
  by (simp add: dead_jaggi_eq one_jaggi_eq damage_monster_def update_monsters_def
     scene_defs code_defs Let_def sqrt_25)

subsection \<open>The shared species template\<close>

text \<open>
  C3 on the code: both agents and the template table hold the address 0 of the one Great
  Jaggi stats object. When the first agent enrages, \<open>become_enraged\<close> writes \<open>attack\<close> of that
  object (45 becomes 67), and the second agent, which never enraged, reads the changed
  object.
\<close>

theorem enrage_writes_shared_template:
  "stats_seen two_jaggis ''great_jaggi_0_1001'' = Some great_jaggi_stats
   \<and> stats_seen after_rage ''great_jaggi_0_1001'' = Some (great_jaggi_stats\<lparr>attack := 67\<rparr>)
   \<and> map_option is_enraged (map_of (active_monsters after_rage) ''great_jaggi_0_1001'') = Some False
   \<and> map_option stats (map_of (active_monsters after_rage) ''great_jaggi_0_1000'') = Some 0
   \<and> map_option stats (map_of (active_monsters after_rage) ''great_jaggi_0_1001'') = Some 0
   \<and> map_of (monster_templates after_rage) ''great_jaggi'' = Some 0
   \<and> attack (stats_store MonsterSpawner_init 0) = 45
   \<and> attack (stats_store after_rage 0) = 67"
  by (simp add: stats_seen_def after_rage_def wounded_pair_eq two_jaggis_eq update_monsters_def
      scene_defs code_defs Let_def sqrt_25)

end
